theory Spec2Isabelle
  imports Main "HOL-Library.Word" "HOL-Library.Sublist" "HOL-Library.List_Lexorder"
    "HOL-Library.Char_ord"
begin

section \<open>Data model (domain/event.go)\<close>

text \<open>
  Go's \<open>int64\<close> is a 64-bit word read as two's complement; Go strings are byte
  sequences, so \<open>string\<close> (a list of 8-bit characters) is their model.
\<close>

type_synonym int64 = "64 word"

typedecl float64

text \<open>The values a decoded JSON document can hold in a Go \<open>any\<close>.\<close>

datatype any =
    JNull
  | JBool bool
  | JNumber float64
  | JString string
  | JArray "any list"
  | JObject "(string \<times> any) list"

text \<open>
  \<open>EventRequest\<close>. A Go slice and a Go map can be \<open>nil\<close>, which the validation
  distinguishes from empty: \<open>None\<close> is \<open>nil\<close>. The map is kept as the list of its
  entries.
\<close>

record EventRequest =
  EventName :: string
  Channel :: string
  CampaignID :: string
  UserID :: string
  Timestamp :: int64
  Tags :: "string list option"
  Metadata :: "(string \<times> any) list option"

text \<open>
  \<open>strconv.FormatInt(i, 10)\<close>: the decimal digits of the absolute value, most
  significant first, after a minus sign when the number is negative.
\<close>

definition digit :: "nat \<Rightarrow> char" where
  "digit d = ''0123456789'' ! d"

fun formatBits :: "nat \<Rightarrow> string" where
  "formatBits u = (if u < 10 then [digit u] else formatBits (u div 10) @ [digit (u mod 10)])"

declare formatBits.simps [simp del]

definition FormatInt :: "int \<Rightarrow> string" where
  "FormatInt i = (if i < 0 then CHR ''-'' # formatBits (nat (- i)) else formatBits (nat i))"

text \<open>
  Reading a decimal numeral back: the value of a digit string, and of a digit string
  with an optional leading minus sign. Used to state that \<open>FormatInt\<close> renders in
  decimal.
\<close>

definition digit_value :: "char \<Rightarrow> nat" where
  "digit_value c = of_char c - 48"

definition decimal_value :: "string \<Rightarrow> nat" where
  "decimal_value s = foldl (\<lambda>acc c. 10 * acc + digit_value c) 0 s"

definition decimal_int :: "string \<Rightarrow> int" where
  "decimal_int s =
     (case s of
        [] \<Rightarrow> 0
      | c # ds \<Rightarrow> if c = CHR ''-'' then - int (decimal_value ds) else int (decimal_value s))"

text \<open>
  \<open>func (e EventRequest) GetUniqueKey() string\<close>:
  \<open>e.EventName + "|" + e.UserID + "|" + strconv.FormatInt(e.Timestamp, 10) + "|" + e.Channel\<close>.
\<close>

definition GetUniqueKey :: "EventRequest \<Rightarrow> string" where
  "GetUniqueKey e =
     EventName e @ ''|'' @ UserID e @ ''|'' @ FormatInt (sint (Timestamp e)) @ ''|'' @ Channel e"

section \<open>Errors\<close>

text \<open>
  Go error values: the sentinel \<open>services.ErrBufferFull\<close>, the sentinel \<open>redis.Nil\<close> of
  the cache client, an error made by \<open>fmt.Errorf\<close> without a wrapped cause (or one of a
  library), and \<open>fmt.Errorf("...: %w", err)\<close>.
\<close>

datatype error =
    ErrBufferFull
  | redis_Nil
  | ErrorString string
  | Errorf string error

fun Error :: "error \<Rightarrow> string" where
  "Error ErrBufferFull = ''event buffer is full''"
| "Error redis_Nil = ''redis: nil''"
| "Error (ErrorString s) = s"
| "Error (Errorf s err) = s @ Error err"

text \<open>\<open>errors.Is\<close>: the error itself or one of the causes it wraps.\<close>

fun errors_Is :: "error \<Rightarrow> error \<Rightarrow> bool" where
  "errors_Is (Errorf s err) target = (Errorf s err = target \<or> errors_Is err target)"
| "errors_Is err target = (err = target)"

section \<open>Idempotency cache client (database/redis.go)\<close>

text \<open>One element of the reply of \<open>MGET\<close>: \<open>nil\<close>, a string, or a value of another type.\<close>

datatype mget_reply = ReplyNil | ReplyString string | ReplyOther

text \<open>
  The cache client as the code sees it at one moment: what \<open>Get(ctx, key).Result()\<close>
  returns for a key, whether \<open>MGet\<close> fails, and what it replies for a key when it does
  not. \<open>MGET\<close> answers with one reply per requested key, in the order of the keys.
\<close>

record ClickHouseRedis =
  Get :: "string \<Rightarrow> string \<times> error option"
  MGet_failure :: "error option"
  MGet_reply :: "string \<Rightarrow> mget_reply"
  expirationMilliseconds :: int64

definition MGet :: "ClickHouseRedis \<Rightarrow> string list \<Rightarrow> error + mget_reply list" where
  "MGet r keys =
     (case MGet_failure r of
        Some err \<Rightarrow> Inl err
      | None \<Rightarrow> Inr (map (MGet_reply r) keys))"

definition RedisKeyPrefix :: string where
  "RedisKeyPrefix = ''clickhouse_event:''"

definition IsEventProcessed :: "ClickHouseRedis \<Rightarrow> EventRequest \<Rightarrow> bool \<times> error option" where
  "IsEventProcessed r request =
     (let key = RedisKeyPrefix @ GetUniqueKey request;
          (result, err) = Get r key
      in case err of
           None \<Rightarrow> (result = ''1'', None)
         | Some e \<Rightarrow> if errors_Is e redis_Nil then (False, None) else (False, Some e))"

text \<open>
  The loop of \<open>AreEventsProcessed\<close> over \<open>results\<close> with its index \<open>i\<close>: a \<open>nil\<close>
  reply stores \<open>false\<close> under the fingerprint of \<open>requests[i]\<close>, the string \<open>"1"\<close>
  stores \<open>true\<close>, any other reply stores nothing. There are as many replies as
  requests, so \<open>i\<close> stays within \<open>requests\<close>.
\<close>

definition processedMap_step ::
  "EventRequest list \<Rightarrow> nat \<times> mget_reply \<Rightarrow> (string \<rightharpoonup> bool) \<Rightarrow> (string \<rightharpoonup> bool)" where
  "processedMap_step requests ir processedMap =
     (case snd ir of
        ReplyNil \<Rightarrow> processedMap(GetUniqueKey (requests ! fst ir) \<mapsto> False)
      | ReplyString str \<Rightarrow>
          if str = ''1'' then processedMap(GetUniqueKey (requests ! fst ir) \<mapsto> True)
          else processedMap
      | ReplyOther \<Rightarrow> processedMap)"

text \<open>What one step of the loop does to the entry of its fingerprint.\<close>

definition reply_update :: "mget_reply \<Rightarrow> bool option \<Rightarrow> bool option" where
  "reply_update res old =
     (case res of
        ReplyNil \<Rightarrow> Some False
      | ReplyString str \<Rightarrow> if str = ''1'' then Some True else old
      | ReplyOther \<Rightarrow> old)"

definition AreEventsProcessed ::
  "ClickHouseRedis \<Rightarrow> EventRequest list \<Rightarrow> error + (string \<rightharpoonup> bool)" where
  "AreEventsProcessed r requests =
     (let keys = map (\<lambda>request. RedisKeyPrefix @ GetUniqueKey request) requests
      in case MGet r keys of
           Inl err \<Rightarrow> Inl err
         | Inr results \<Rightarrow>
             Inr (fold (processedMap_step requests) (enumerate 0 results) Map.empty))"

section \<open>Batcher: intake queue and dedup filter (services/batcher.go)\<close>

text \<open>
  How the worker stands to the channel: it is not waiting on it; it is parked in its
  \<open>select\<close>, waiting to receive; or a sender has handed it an event while it was parked,
  and it resumes in the receive case with that event.
\<close>

datatype receiver = NotWaiting | Waiting | Delivered EventRequest

text \<open>
  The state of an \<open>EventBatcher\<close>: the channel (the contents of its buffer, oldest first,
  its capacity, and its waiting receiver), the batch size, the running flag, the wait
  group's counter and the current batch. The cache and store clients are passed to each
  operation, as what they answer changes between calls.
\<close>

record EventBatcher =
  eventChan :: "EventRequest list"
  eventChan_cap :: nat
  eventChan_recvq :: receiver
  batchSize :: int
  isRunning :: bool
  wg :: nat
  currentBatch :: "EventRequest list"

text \<open>
  A send on the channel, as the Go runtime performs it (\<open>chansend(c, ep, block)\<close>): a
  parked receiver gets the value directly; otherwise the value goes into the buffer when
  it has room; otherwise a non-blocking send reports failure and a blocking send parks
  the sender.
\<close>

datatype send_outcome = Sent EventBatcher | NotSent | Blocks

definition chansend :: "EventBatcher \<Rightarrow> EventRequest \<Rightarrow> bool \<Rightarrow> send_outcome" where
  "chansend b ep block =
     (if eventChan_recvq b = Waiting then Sent (b\<lparr>eventChan_recvq := Delivered ep\<rparr>)
      else if length (eventChan b) < eventChan_cap b
      then Sent (b\<lparr>eventChan := eventChan b @ [ep]\<rparr>)
      else if \<not> block then NotSent
      else Blocks)"

text \<open>
  \<open>Enqueue\<close>: a \<open>select\<close> with the send as its only case and a \<open>default\<close>, which is a
  non-blocking send: \<open>nil\<close> when the send is done, \<open>ErrBufferFull\<close> otherwise. \<open>None\<close>
  stands for a call that does not return because the sender is parked.
\<close>

definition Enqueue ::
  "EventBatcher \<Rightarrow> EventRequest \<Rightarrow> (error option \<times> EventBatcher) option" where
  "Enqueue b event =
     (case chansend b event False of
        Sent b' \<Rightarrow> Some (None, b')
      | NotSent \<Rightarrow> Some (Some ErrBufferFull, b)
      | Blocks \<Rightarrow> None)"

text \<open>
  \<open>filterProcessedEvents\<close>, given what \<open>AreEventsProcessed\<close> returned for the same
  events: the loop appends an event unless the map holds \<open>true\<close> for its fingerprint.
  The method of \<open>EventBatcher\<close> and the method of \<open>eventService\<close> have the same body.
\<close>

definition filter_loop ::
  "(string \<rightharpoonup> bool) \<Rightarrow> EventRequest list \<Rightarrow> EventRequest list \<Rightarrow> EventRequest list" where
  "filter_loop maps events unprocessedEvents =
     fold (\<lambda>event acc.
             (case maps (GetUniqueKey event) of
                None \<Rightarrow> acc @ [event]
              | Some processed \<Rightarrow> if \<not> processed then acc @ [event] else acc))
          events unprocessedEvents"

definition filterProcessedEvents_of ::
  "error + (string \<rightharpoonup> bool) \<Rightarrow> EventRequest list \<Rightarrow> EventRequest list" where
  "filterProcessedEvents_of lookup events =
     (case lookup of
        Inl err \<Rightarrow> events
      | Inr maps \<Rightarrow> filter_loop maps events [])"

definition filterProcessedEvents :: "ClickHouseRedis \<Rightarrow> EventRequest list \<Rightarrow> EventRequest list" where
  "filterProcessedEvents redisRepo events =
     filterProcessedEvents_of (AreEventsProcessed redisRepo events) events"

section \<open>Ingestion facade: single events (services/event.go)\<close>

record EventResponse =
  Success :: bool
  Message :: string

definition PostEvents ::
  "ClickHouseRedis \<Rightarrow> EventBatcher \<Rightarrow> EventRequest
     \<Rightarrow> ((EventResponse \<times> error option) \<times> EventBatcher) option" where
  "PostEvents redisRepo batcher eventData =
     (let (isProcessed, err) = IsEventProcessed redisRepo eventData
      in if isProcessed
         then Some ((\<lparr>Success = True, Message = ''Event already processed''\<rparr>, None),
                    batcher)
         else (case Enqueue batcher eventData of
                 None \<Rightarrow> None
               | Some (Some err, batcher') \<Rightarrow>
                   Some ((\<lparr>Success = False,
                           Message = ''Event buffer is full, please try again later''\<rparr>,
                          Some err),
                         batcher')
               | Some (None, batcher') \<Rightarrow>
                   Some ((\<lparr>Success = True, Message = ''Event posted successfully''\<rparr>, None),
                         batcher')))"

section \<open>Columnar writer (database/clickhouse.go)\<close>

text \<open>\<open>time.Unix(sec, 0)\<close>: a wall-clock time given by its seconds since the epoch.\<close>

datatype Time = Unix int64

record EventColumnar =
  col_EventName :: "string list"
  col_Channel :: "string list"
  col_CampaignID :: "string list"
  col_UserID :: "string list"
  col_Timestamp :: "Time list"
  col_Tags :: "string list option list"
  col_Metadata :: "string list"
  col_IngestedAt :: "Time list"

record MetricResult =
  Bucket :: string
  TotalEvents :: "64 word"
  UniqueUsers :: "64 word"

text \<open>
  A select query as the builder of the store client holds it: each clause is a list of
  query templates with their arguments. An argument is bound to its \<open>?\<close> by the client,
  except \<open>ch.Safe\<close>, whose text is put into the query as it is.
\<close>

datatype query_arg = Safe string | ArgString string | ArgTime Time

type_synonym query_expr = "string \<times> query_arg list"

record SelectQuery =
  q_table :: "query_expr list"
  q_column :: "query_expr list"
  q_where :: "query_expr list"
  q_group :: "query_expr list"
  q_order :: "query_expr list"

definition NewSelect :: SelectQuery where
  "NewSelect = \<lparr>q_table = [], q_column = [], q_where = [], q_group = [], q_order = []\<rparr>"

definition TableExpr :: "SelectQuery \<Rightarrow> string \<Rightarrow> query_arg list \<Rightarrow> SelectQuery" where
  "TableExpr q query args = q\<lparr>q_table := q_table q @ [(query, args)]\<rparr>"

definition ColumnExpr :: "SelectQuery \<Rightarrow> string \<Rightarrow> query_arg list \<Rightarrow> SelectQuery" where
  "ColumnExpr q query args = q\<lparr>q_column := q_column q @ [(query, args)]\<rparr>"

definition Where :: "SelectQuery \<Rightarrow> string \<Rightarrow> query_arg list \<Rightarrow> SelectQuery" where
  "Where q query args = q\<lparr>q_where := q_where q @ [(query, args)]\<rparr>"

definition GroupExpr :: "SelectQuery \<Rightarrow> string \<Rightarrow> query_arg list \<Rightarrow> SelectQuery" where
  "GroupExpr q query args = q\<lparr>q_group := q_group q @ [(query, args)]\<rparr>"

definition OrderExpr :: "SelectQuery \<Rightarrow> string \<Rightarrow> query_arg list \<Rightarrow> SelectQuery" where
  "OrderExpr q query args = q\<lparr>q_order := q_order q @ [(query, args)]\<rparr>"

text \<open>
  The store connection \<open>*ch.DB\<close> as the code sees it at one moment: what scanning a
  select query returns, and what executing a columnar insert returns. \<open>ClickHouseDB\<close>
  embeds the pointer, which can be \<open>nil\<close>.
\<close>

record ch_DB =
  Scan :: "SelectQuery \<Rightarrow> error + MetricResult list"
  Exec_insert :: "EventColumnar \<Rightarrow> error option"

type_synonym ClickHouseDB = "ch_DB option"

text \<open>What the writer takes from the Go runtime: the clock and \<open>json.Marshal\<close>.\<close>

record runtime =
  time_Now :: Time
  json_Marshal :: "(string \<times> any) list \<Rightarrow> error + string"

text \<open>
  The loop of \<open>SaveEvents\<close> over the requests: it serialises the metadata (the empty
  string for a \<open>nil\<close> or empty map), returns at the first serialisation error, and
  appends one value to each column.
\<close>

fun extract_columns ::
  "runtime \<Rightarrow> Time \<Rightarrow> EventRequest list \<Rightarrow> EventColumnar \<Rightarrow> error + EventColumnar" where
  "extract_columns rt now [] cols = Inr cols"
| "extract_columns rt now (request # requests) cols =
     (case (case Metadata request of
              None \<Rightarrow> Inr []
            | Some md \<Rightarrow>
                if length md > 0
                then (case json_Marshal rt md of
                        Inl err \<Rightarrow> Inl (Errorf ''failed to serialize metadata: '' err)
                      | Inr metadataBytes \<Rightarrow> Inr metadataBytes)
                else Inr []) of
        Inl err \<Rightarrow> Inl err
      | Inr metadataJSON \<Rightarrow>
          extract_columns rt now requests
            (cols\<lparr>col_EventName := col_EventName cols @ [EventName request],
                   col_Channel := col_Channel cols @ [Channel request],
                   col_CampaignID := col_CampaignID cols @ [CampaignID request],
                   col_UserID := col_UserID cols @ [UserID request],
                   col_Timestamp := col_Timestamp cols @ [Unix (Timestamp request)],
                   col_Tags := col_Tags cols @ [Tags request],
                   col_Metadata := col_Metadata cols @ [metadataJSON],
                   col_IngestedAt := col_IngestedAt cols @ [now]\<rparr>))"

definition SaveEvents :: "runtime \<Rightarrow> ClickHouseDB \<Rightarrow> EventRequest list \<Rightarrow> error option" where
  "SaveEvents rt c requests =
     (case c of
        None \<Rightarrow> Some (ErrorString ''database connection is nil'')
      | Some db \<Rightarrow>
          if length requests = 0 then Some (ErrorString ''no events to insert'')
          else (case extract_columns rt (time_Now rt) requests
                       \<lparr>col_EventName = [], col_Channel = [], col_CampaignID = [],
                        col_UserID = [], col_Timestamp = [], col_Tags = [],
                        col_Metadata = [], col_IngestedAt = []\<rparr> of
                  Inl err \<Rightarrow> Some err
                | Inr columnarModel \<Rightarrow>
                    (case Exec_insert db columnarModel of
                       Some err \<Rightarrow> Some (Errorf ''failed to columnar insert events: '' err)
                     | None \<Rightarrow> None)))"

section \<open>Metric query planner (database/clickhouse.go)\<close>

record MetricRequest =
  metric_EventName :: "string option"
  From :: "int64 option"
  To :: "int64 option"
  GroupBy :: "string option"

text \<open>
  The \<open>switch\<close> of \<open>GetMetrics\<close> over \<open>group_by\<close>: \<open>groupExpr\<close> stays empty for
  a missing or unlisted value.
\<close>

definition GetMetrics_groupExpr :: "string option \<Rightarrow> string" where
  "GetMetrics_groupExpr groupBy =
     (case groupBy of
        None \<Rightarrow> []
      | Some g \<Rightarrow>
          if g = ''hour'' then ''toString(toStartOfHour(timestamp))''
          else if g = ''day'' then ''toString(toStartOfDay(timestamp))''
          else if g = ''week'' then ''toString(toStartOfWeek(timestamp))''
          else if g = ''month'' then ''toString(toStartOfMonth(timestamp))''
          else if g = ''year'' then ''toString(toStartOfYear(timestamp))''
          else if g = ''channel'' then ''channel''
          else if g = ''campaign_id'' then ''campaign_id''
          else if g = ''user_id'' then ''user_id''
          else if g = ''event_name'' then ''event_name''
          else [])"

text \<open>The query that \<open>GetMetrics\<close> builds, call by call.\<close>

definition GetMetrics_query :: "MetricRequest \<Rightarrow> SelectQuery" where
  "GetMetrics_query request =
     (let groupExpr = GetMetrics_groupExpr (GroupBy request);
          query = TableExpr NewSelect ''events FINAL'' [];
          query = (if groupExpr \<noteq> []
                   then ColumnExpr query ''? AS bucket'' [Safe groupExpr]
                   else ColumnExpr query (CHR 0x27 # ''total'' @ CHR 0x27 # '' AS bucket'') []);
          query = ColumnExpr query ''count() AS total_events'' [];
          query = ColumnExpr query ''uniqExact(user_id) AS unique_users'' [];
          query = (case metric_EventName request of
                     None \<Rightarrow> query
                   | Some name \<Rightarrow>
                       if name \<noteq> [] then Where query ''event_name = ?'' [ArgString name]
                       else query);
          query = (case From request of
                     None \<Rightarrow> query
                   | Some from \<Rightarrow> Where query ''timestamp >= ?'' [ArgTime (Unix from)]);
          query = (case To request of
                     None \<Rightarrow> query
                   | Some to \<Rightarrow> Where query ''timestamp <= ?'' [ArgTime (Unix to)]);
          query = (if groupExpr \<noteq> []
                   then OrderExpr (GroupExpr query groupExpr []) ''bucket ASC'' []
                   else query)
      in query)"

text \<open>
  \<open>GetMetrics\<close>: the scan's rows, or its error. With a \<open>nil\<close> connection the call ends
  in a nil pointer dereference: \<open>None\<close>.
\<close>

definition GetMetrics :: "ClickHouseDB \<Rightarrow> MetricRequest \<Rightarrow> (error + MetricResult list) option" where
  "GetMetrics c request =
     (case c of
        None \<Rightarrow> None
      | Some db \<Rightarrow>
          Some (case Scan db (GetMetrics_query request) of
                  Inl err \<Rightarrow> Inl err
                | Inr results \<Rightarrow> Inr results))"

text \<open>
  The text that reaches the query as it is: every template and every \<open>ch.Safe\<close>
  argument. Every other argument is bound as a parameter.
\<close>

definition safe_text :: "query_arg \<Rightarrow> string list" where
  "safe_text a = (case a of Safe t \<Rightarrow> [t] | ArgString s \<Rightarrow> [] | ArgTime t \<Rightarrow> [])"

definition inlined_text :: "SelectQuery \<Rightarrow> string list" where
  "inlined_text q =
     concat (map (\<lambda>qa. fst qa # concat (map safe_text (snd qa)))
               (q_table q @ q_column q @ q_where q @ q_group q @ q_order q))"

definition group_by_allowlist :: "string list" where
  "group_by_allowlist =
     [''hour'', ''day'', ''week'', ''month'', ''year'', ''channel'', ''campaign_id'', ''user_id'',
      ''event_name'']"

section \<open>The analytics store as the planner's queries read it\<close>

text \<open>
  A row of the \<open>events\<close> table (the struct \<open>Event\<close>). The table is created with the
  engine \<open>ReplacingMergeTree(ingested_at)\<close>, ordered by
  \<open>timestamp, event_name, channel, user_id\<close>: rows with the same sorting key are
  duplicates, and the one ingested last replaces the others.
\<close>

record Event =
  row_EventName :: string
  row_Channel :: string
  row_CampaignID :: string
  row_UserID :: string
  row_Timestamp :: Time
  row_Tags :: "string list"
  row_Metadata :: string
  row_IngestedAt :: Time

definition seconds :: "Time \<Rightarrow> int" where
  "seconds t = (case t of Unix sec \<Rightarrow> sint sec)"

definition same_sorting_key :: "Event \<Rightarrow> Event \<Rightarrow> bool" where
  "same_sorting_key r r' =
     (row_Timestamp r = row_Timestamp r' \<and> row_EventName r = row_EventName r'
      \<and> row_Channel r = row_Channel r' \<and> row_UserID r = row_UserID r')"

text \<open>
  Reading with \<open>FINAL\<close>: the rows are merged one by one into a list without duplicates;
  a row replaces its duplicate unless the duplicate was ingested later.
\<close>

definition merge_row :: "Event \<Rightarrow> Event list \<Rightarrow> Event list" where
  "merge_row r merged =
     (if list_ex (same_sorting_key r) merged
      then map (\<lambda>r'. if same_sorting_key r r'
                          \<and> seconds (row_IngestedAt r') \<le> seconds (row_IngestedAt r)
                       then r else r') merged
      else merged @ [r])"

definition FINAL :: "Event list \<Rightarrow> Event list" where
  "FINAL rows = fold merge_row rows []"

text \<open>The condition a \<open>WHERE\<close> template denotes with its bound argument.\<close>

definition where_condition :: "query_expr \<Rightarrow> (Event \<Rightarrow> bool) option" where
  "where_condition w =
     (case snd w of
        [ArgString name] \<Rightarrow>
          if fst w = ''event_name = ?'' then Some (\<lambda>r. row_EventName r = name) else None
      | [ArgTime t] \<Rightarrow>
          if fst w = ''timestamp >= ?'' then Some (\<lambda>r. seconds t \<le> seconds (row_Timestamp r))
          else if fst w = ''timestamp <= ?''
          then Some (\<lambda>r. seconds (row_Timestamp r) \<le> seconds t)
          else None
      | _ \<Rightarrow> None)"

text \<open>
  One result row: the bucket with \<open>count()\<close> and \<open>uniqExact(user_id)\<close> over its rows,
  both unsigned 64-bit.
\<close>

definition aggregate :: "string \<Rightarrow> Event list \<Rightarrow> MetricResult" where
  "aggregate bucket rs =
     \<lparr>Bucket = bucket, TotalEvents = of_nat (length rs),
      UniqueUsers = of_nat (length (remdups (map row_UserID rs)))\<rparr>"

text \<open>
  The server: the rows of the table, and how it renders the start of the hour, day,
  week, month or year of a time as a string (which depends on its time zone).
\<close>

record clickhouse =
  table_events :: "Event list"
  toStartOf :: "string \<Rightarrow> Time \<Rightarrow> string"

definition bucket_of :: "clickhouse \<Rightarrow> string \<Rightarrow> (Event \<Rightarrow> string) option" where
  "bucket_of srv ex =
     (if ex = ''channel'' then Some row_Channel
      else if ex = ''campaign_id'' then Some row_CampaignID
      else if ex = ''user_id'' then Some row_UserID
      else if ex = ''event_name'' then Some row_EventName
      else if ex \<in> set [''toString(toStartOfHour(timestamp))'',
                         ''toString(toStartOfDay(timestamp))'',
                         ''toString(toStartOfWeek(timestamp))'',
                         ''toString(toStartOfMonth(timestamp))'',
                         ''toString(toStartOfYear(timestamp))'']
      then Some (\<lambda>r. toStartOf srv ex (row_Timestamp r))
      else None)"

text \<open>
  What the server answers to a select of the planner's shape: the de-duplicated rows that
  satisfy every condition are aggregated, into one row when the bucket is the constant
  \<open>'total'\<close> and there is no \<open>GROUP BY\<close> (also when no row is selected), and into one
  row per value of the bucket expression, in ascending order of the bucket, when the
  query groups by it. Any other query is answered with an error.
\<close>

definition clickhouse_select :: "clickhouse \<Rightarrow> SelectQuery \<Rightarrow> error + MetricResult list" where
  "clickhouse_select srv q =
     (case those (map where_condition (q_where q)) of
        None \<Rightarrow> Inl (ErrorString ''unsupported query'')
      | Some conditions \<Rightarrow>
          let rs = filter (\<lambda>r. list_all (\<lambda>c. c r) conditions) (FINAL (table_events srv))
          in if q_table q = [(''events FINAL'', [])]
                \<and> q_column q = [(CHR 0x27 # ''total'' @ CHR 0x27 # '' AS bucket'', []),
                                (''count() AS total_events'', []),
                                (''uniqExact(user_id) AS unique_users'', [])]
                \<and> q_group q = [] \<and> q_order q = []
             then Inr [aggregate ''total'' rs]
             else (case q_group q of
                     [(ex, [])] \<Rightarrow>
                       (case bucket_of srv ex of
                          None \<Rightarrow> Inl (ErrorString ''unsupported query'')
                        | Some bucket \<Rightarrow>
                            if q_table q = [(''events FINAL'', [])]
                               \<and> q_column q = [(''? AS bucket'', [Safe ex]),
                                               (''count() AS total_events'', []),
                                               (''uniqExact(user_id) AS unique_users'', [])]
                               \<and> q_order q = [(''bucket ASC'', [])]
                            then Inr (map (\<lambda>v. aggregate v (filter (\<lambda>r. bucket r = v) rs))
                                        (sort (remdups (map bucket rs))))
                            else Inl (ErrorString ''unsupported query''))
                   | _ \<Rightarrow> Inl (ErrorString ''unsupported query'')))"

text \<open>The connection to a server: a scan is the server's answer; an insert is accepted.\<close>

definition clickhouse_DB :: "clickhouse \<Rightarrow> ch_DB" where
  "clickhouse_DB srv = \<lparr>Scan = clickhouse_select srv, Exec_insert = (\<lambda>cols. None)\<rparr>"

text \<open>
  The rows a metric request asks for, in the request's own terms: the event name when
  one is given (an empty name selects every row), and the bounds on the timestamp.
\<close>

definition request_selects :: "MetricRequest \<Rightarrow> Event \<Rightarrow> bool" where
  "request_selects request r =
     ((case metric_EventName request of
         None \<Rightarrow> True
       | Some name \<Rightarrow> name = [] \<or> row_EventName r = name)
      \<and> (case From request of
            None \<Rightarrow> True
          | Some from \<Rightarrow> sint from \<le> seconds (row_Timestamp r))
      \<and> (case To request of
            None \<Rightarrow> True
          | Some to \<Rightarrow> seconds (row_Timestamp r) \<le> sint to))"

section \<open>Ingestion facade: bulk events (services/event.go)\<close>

record BulkEventRequest =
  Events :: "EventRequest list"

record BulkEventResponse =
  bulk_Success :: bool
  bulk_Message :: string
  TotalCount :: int
  SuccessCount :: int
  FailureCount :: int

text \<open>
  \<open>PostEventsBulk\<close>. The third component is the argument of the goroutine that marks
  the written events as processed, when one is started.
\<close>

definition PostEventsBulk ::
  "runtime \<Rightarrow> ClickHouseRedis \<Rightarrow> ClickHouseDB \<Rightarrow> BulkEventRequest
     \<Rightarrow> BulkEventResponse \<times> error option \<times> EventRequest list option" where
  "PostEventsBulk rt redisRepo clickhouseDB bulkData =
     (let totalCount = int (length (Events bulkData));
          filteredEvents = filterProcessedEvents redisRepo (Events bulkData)
      in case SaveEvents rt clickhouseDB filteredEvents of
           Some err \<Rightarrow>
             (\<lparr>bulk_Success = False,
               bulk_Message = ''Failed to save bulk events: '' @ Error err,
               TotalCount = totalCount, SuccessCount = 0, FailureCount = totalCount\<rparr>,
              Some err, None)
         | None \<Rightarrow>
             (\<lparr>bulk_Success = True, bulk_Message = ''Bulk events posted successfully'',
               TotalCount = totalCount, SuccessCount = totalCount, FailureCount = 0\<rparr>,
              None, Some filteredEvents))"

section \<open>Batcher: flushing and the worker (services/batcher.go)\<close>

text \<open>
  What the batcher does to the outside, in order: a call of the columnar writer (its
  argument and what it returned), and the start of the goroutine that marks events as
  processed.
\<close>

datatype call =
    SaveEvents_call "EventRequest list" "error option"
  | SetMultipleEventsProcessed_call "EventRequest list"

text \<open>What the runtime, the cache and the store answer during one flush.\<close>

type_synonym env = "runtime \<times> ClickHouseRedis \<times> ClickHouseDB"

text \<open>
  \<open>NewEventBatcher\<close>: \<open>make\<close> panics on a negative channel capacity and on a negative
  capacity of the batch slice (\<open>None\<close>). The flush interval belongs to the ticker, which
  the worker's turns stand for.
\<close>

definition NewEventBatcher :: "int \<Rightarrow> int \<Rightarrow> EventBatcher option" where
  "NewEventBatcher capacity batchSize' =
     (if capacity < 0 \<or> batchSize' < 0 then None
      else Some \<lparr>eventChan = [], eventChan_cap = nat capacity, eventChan_recvq = NotWaiting,
                 batchSize = batchSize', isRunning = False, wg = 0, currentBatch = []\<rparr>)"

definition Start :: "EventBatcher \<Rightarrow> EventBatcher" where
  "Start b = (if isRunning b then b else b\<lparr>isRunning := True, wg := wg b + 1\<rparr>)"

definition flushBatch :: "env \<Rightarrow> EventBatcher \<times> call list \<Rightarrow> EventBatcher \<times> call list" where
  "flushBatch e bt =
     (let (rt, redisRepo, clickhouseDB) = e; (b, trace) = bt
      in if length (currentBatch b) = 0 then (b, trace)
         else let batch = currentBatch b;
                  b = b\<lparr>currentBatch := []\<rparr>;
                  unprocessedEvents = filterProcessedEvents redisRepo batch
              in if length unprocessedEvents = 0 then (b, trace)
                 else (case SaveEvents rt clickhouseDB unprocessedEvents of
                         Some err \<Rightarrow>
                           (b, trace @ [SaveEvents_call unprocessedEvents (Some err)])
                       | None \<Rightarrow>
                           (b, trace @ [SaveEvents_call unprocessedEvents None,
                                        SetMultipleEventsProcessed_call unprocessedEvents])))"

text \<open>A writer call that did not take the writer's branch for an empty input.\<close>

definition nonempty_write :: "call \<Rightarrow> bool" where
  "nonempty_write c =
     (case c of
        SaveEvents_call batch res \<Rightarrow>
          batch \<noteq> [] \<and> res \<noteq> Some (ErrorString ''no events to insert'')
      | SetMultipleEventsProcessed_call batch \<Rightarrow> True)"

text \<open>
  The drain loop of \<open>flushRemaining\<close>: it moves events from the channel to the current
  batch, counting them, until the channel is empty.
\<close>

fun drain :: "EventRequest list \<Rightarrow> EventRequest list \<Rightarrow> nat
                \<Rightarrow> EventRequest list \<times> EventRequest list \<times> nat" where
  "drain [] batch drained = ([], batch, drained)"
| "drain (event # chan) batch drained = drain chan (batch @ [event]) (Suc drained)"

definition flushRemaining ::
  "env \<Rightarrow> env \<Rightarrow> EventBatcher \<times> call list \<Rightarrow> EventBatcher \<times> call list" where
  "flushRemaining e1 e2 bt =
     (let remaining = length (currentBatch (fst bt));
          bt = (if remaining > 0 then flushBatch e1 bt else bt);
          (b, trace) = bt;
          (chan, batch, drained) = drain (eventChan b) (currentBatch b) 0;
          b = b\<lparr>eventChan := chan, currentBatch := batch\<rparr>
      in if drained > 0 then flushBatch e2 (b, trace) else (b, trace))"

text \<open>
  The body of the worker's receive case: the event is appended to the current batch,
  which is flushed when it has reached the batch size.
\<close>

definition on_receive ::
  "env \<Rightarrow> EventRequest \<Rightarrow> EventBatcher \<times> call list \<Rightarrow> EventBatcher \<times> call list" where
  "on_receive e1 event bt =
     (let b = (fst bt)\<lparr>currentBatch := currentBatch (fst bt) @ [event]\<rparr>;
          shouldFlush = (int (length (currentBatch b)) \<ge> batchSize b)
      in if shouldFlush then flushBatch e1 (b, snd bt) else (b, snd bt))"

text \<open>
  One turn of the worker's \<open>select\<close>: the case that fires, with what the outside answers
  during the flushes of the turn. A worker that was handed an event while parked resumes
  in the receive case with it, whatever else is ready. Otherwise the receive case fires
  only on a non-empty buffer, and the worker that takes a turn is no longer parked.
\<close>

datatype select_case = ctx_Done | eventChan_recv | ticker_C

definition worker_turn ::
  "select_case \<Rightarrow> env \<Rightarrow> env \<Rightarrow> EventBatcher \<times> call list \<Rightarrow> EventBatcher \<times> call list" where
  "worker_turn sc e1 e2 bt =
     (case eventChan_recvq (fst bt) of
        Delivered event \<Rightarrow>
          on_receive e1 event ((fst bt)\<lparr>eventChan_recvq := NotWaiting\<rparr>, snd bt)
      | _ \<Rightarrow>
          (case sc of
             ctx_Done \<Rightarrow>
               (let (b, trace) =
                      flushRemaining e1 e2 ((fst bt)\<lparr>eventChan_recvq := NotWaiting\<rparr>, snd bt)
                in (b\<lparr>wg := wg b - 1\<rparr>, trace))
           | eventChan_recv \<Rightarrow>
               (case eventChan (fst bt) of
                  [] \<Rightarrow> bt
                | event # chan \<Rightarrow>
                    on_receive e1 event
                      ((fst bt)\<lparr>eventChan := chan, eventChan_recvq := NotWaiting\<rparr>, snd bt))
           | ticker_C \<Rightarrow>
               (let bt = ((fst bt)\<lparr>eventChan_recvq := NotWaiting\<rparr>, snd bt);
                    hasEvents = (length (currentBatch (fst bt)) > 0)
                in if hasEvents then flushBatch e1 bt else bt)))"

text \<open>
  A run of the batcher: producers enqueue, the worker parks in its \<open>select\<close> when no case
  is ready (the buffer is then empty), and the worker takes turns, in any order. The
  worker acts only while it runs, that is between \<open>Start\<close> and its return after the
  cancel case.
\<close>

datatype action = Producer EventRequest | Worker_parks | Worker select_case env env

fun run :: "action list \<Rightarrow> EventBatcher \<times> call list \<Rightarrow> EventBatcher \<times> call list" where
  "run [] bt = bt"
| "run (Producer event # as) bt =
     run as (case Enqueue (fst bt) event of
               None \<Rightarrow> bt
             | Some (err, b) \<Rightarrow> (b, snd bt))"
| "run (Worker_parks # as) bt =
     run as (if wg (fst bt) > 0 \<and> eventChan (fst bt) = []
                \<and> eventChan_recvq (fst bt) = NotWaiting
             then ((fst bt)\<lparr>eventChan_recvq := Waiting\<rparr>, snd bt)
             else bt)"
| "run (Worker sc e1 e2 # as) bt =
     run as (if wg (fst bt) > 0 then worker_turn sc e1 e2 bt else bt)"

section \<open>Request validation (validations/request.go)\<close>

text \<open>
  \<open>strings.TrimSpace\<close> removes the leading and trailing white space of a string, as
  Unicode defines it. \<open>space_runes\<close> lists the UTF-8 encodings of the white space code
  points: U+0009 to U+000D, U+0020, U+0085, U+00A0, U+1680, U+2000 to U+200A, U+2028,
  U+2029, U+202F, U+205F and U+3000.
\<close>

definition space_runes :: "string list" where
  "space_runes =
     [[CHR 0x09], [CHR 0x0A], [CHR 0x0B], [CHR 0x0C], [CHR 0x0D], [CHR 0x20],
      [CHR 0xC2, CHR 0x85], [CHR 0xC2, CHR 0xA0],
      [CHR 0xE1, CHR 0x9A, CHR 0x80],
      [CHR 0xE2, CHR 0x80, CHR 0x80], [CHR 0xE2, CHR 0x80, CHR 0x81],
      [CHR 0xE2, CHR 0x80, CHR 0x82], [CHR 0xE2, CHR 0x80, CHR 0x83],
      [CHR 0xE2, CHR 0x80, CHR 0x84], [CHR 0xE2, CHR 0x80, CHR 0x85],
      [CHR 0xE2, CHR 0x80, CHR 0x86], [CHR 0xE2, CHR 0x80, CHR 0x87],
      [CHR 0xE2, CHR 0x80, CHR 0x88], [CHR 0xE2, CHR 0x80, CHR 0x89],
      [CHR 0xE2, CHR 0x80, CHR 0x8A],
      [CHR 0xE2, CHR 0x80, CHR 0xA8], [CHR 0xE2, CHR 0x80, CHR 0xA9],
      [CHR 0xE2, CHR 0x80, CHR 0xAF], [CHR 0xE2, CHR 0x81, CHR 0x9F],
      [CHR 0xE3, CHR 0x80, CHR 0x80]]"

text \<open>The number of bytes of the white space rune a string starts with, or 0.\<close>

definition leading_space :: "string list \<Rightarrow> string \<Rightarrow> nat" where
  "leading_space runes s =
     (case find (\<lambda>p. prefix p s) runes of None \<Rightarrow> 0 | Some p \<Rightarrow> length p)"

function trim_left :: "string list \<Rightarrow> string \<Rightarrow> string" where
  "trim_left runes s =
     (if leading_space runes s = 0 then s else trim_left runes (drop (leading_space runes s) s))"
  by pat_completeness auto
termination
proof (relation "measure (\<lambda>(runes, s). length s)")
  show "wf (measure (\<lambda>(runes, s). length s))" by simp
next
  fix runes :: "string list" and s :: string
  assume pos: "leading_space runes s \<noteq> 0"
  then obtain p where p: "find (\<lambda>p. prefix p s) runes = Some p" "p \<noteq> []"
    by (auto simp: leading_space_def split: option.splits)
  then have "prefix p s" by (auto simp: find_Some_iff)
  with p have "s \<noteq> []" by auto
  with pos show "((runes, drop (leading_space runes s) s), (runes, s))
                   \<in> measure (\<lambda>(runes, s). length s)"
    by simp
qed

declare trim_left.simps [simp del]

definition TrimSpace :: "string \<Rightarrow> string" where
  "TrimSpace s = rev (trim_left (map rev space_runes) (rev (trim_left space_runes s)))"

text \<open>\<open>fiber.NewError(code, message)\<close>.\<close>

datatype fiber_Error = NewError nat string

definition StatusBadRequest :: nat where
  "StatusBadRequest = 400"

text \<open>
  \<open>ValidateEventRequest\<close>, with the server's clock \<open>time.Now().UTC().Unix()\<close> as an
  argument; \<open>None\<close> is the \<open>nil\<close> error. Whatever the order in which the loop meets
  the keys of the metadata map, it returns the same error when one of them is blank.
\<close>

definition ValidateEventRequest :: "int64 \<Rightarrow> EventRequest \<Rightarrow> fiber_Error option" where
  "ValidateEventRequest now request =
     (if TrimSpace (EventName request) = []
      then Some (NewError StatusBadRequest ''event_name is required'')
      else if TrimSpace (Channel request) = []
      then Some (NewError StatusBadRequest ''channel is required'')
      else if sint (Timestamp request) \<le> 0
      then Some (NewError StatusBadRequest
                   ''timestamp is required and must be a positive integer'')
      else if sint (Timestamp request) > sint now
      then Some (NewError StatusBadRequest ''timestamp cannot be in the future'')
      else if UserID request = []
      then Some (NewError StatusBadRequest ''user_id is required'')
      else if CampaignID request = []
      then Some (NewError StatusBadRequest ''campaign_id is required'')
      else (case Tags request of
              None \<Rightarrow> Some (NewError StatusBadRequest ''tags is required'')
            | Some tags \<Rightarrow>
                if list_ex (\<lambda>tag. TrimSpace tag = []) tags
                then Some (NewError StatusBadRequest ''tags cannot be empty'')
                else (case Metadata request of
                        None \<Rightarrow> Some (NewError StatusBadRequest ''metadata is required'')
                      | Some md \<Rightarrow>
                          if list_ex (\<lambda>kv. TrimSpace (fst kv) = []) md
                          then Some (NewError StatusBadRequest
                                       ''metadata keys cannot be empty'')
                          else None)))"

text \<open>
  The validation contract as the specification words it: every required string field
  is non-empty after trimming, the timestamp is positive and not in the future, tags
  and metadata are present, and no tag and no metadata key is blank.
\<close>

definition meets_validation_contract :: "int64 \<Rightarrow> EventRequest \<Rightarrow> bool" where
  "meets_validation_contract now request =
     (TrimSpace (EventName request) \<noteq> [] \<and> TrimSpace (Channel request) \<noteq> []
      \<and> TrimSpace (UserID request) \<noteq> [] \<and> TrimSpace (CampaignID request) \<noteq> []
      \<and> 0 < sint (Timestamp request) \<and> sint (Timestamp request) \<le> sint now
      \<and> (case Tags request of
            None \<Rightarrow> False
          | Some tags \<Rightarrow> \<not> list_ex (\<lambda>tag. TrimSpace tag = []) tags)
      \<and> (case Metadata request of
            None \<Rightarrow> False
          | Some md \<Rightarrow> \<not> list_ex (\<lambda>kv. TrimSpace (fst kv) = []) md))"

text \<open>
  \<open>ValidateMetricRequest\<close>, with the two readings of the server's clock as arguments.
\<close>

definition ValidateMetricRequest ::
  "int64 \<Rightarrow> int64 \<Rightarrow> MetricRequest \<Rightarrow> fiber_Error option" where
  "ValidateMetricRequest now_from now_to request =
     (if (case From request of None \<Rightarrow> False | Some from \<Rightarrow> sint from \<le> 0)
      then Some (NewError StatusBadRequest ''from must be a positive integer'')
      else if (case From request of None \<Rightarrow> False | Some from \<Rightarrow> sint from > sint now_from)
      then Some (NewError StatusBadRequest ''from cannot be in the future'')
      else if (case To request of None \<Rightarrow> False | Some to \<Rightarrow> sint to \<le> 0)
      then Some (NewError StatusBadRequest ''to must be a positive integer'')
      else if (case To request of None \<Rightarrow> False | Some to \<Rightarrow> sint to > sint now_to)
      then Some (NewError StatusBadRequest ''to cannot be in the future'')
      else if (case (From request, To request) of
                 (Some from, Some to) \<Rightarrow> sint from > sint to
               | _ \<Rightarrow> False)
      then Some (NewError StatusBadRequest ''from cannot be greater than to'')
      else if (case GroupBy request of None \<Rightarrow> False | Some g \<Rightarrow> TrimSpace g = [])
      then Some (NewError StatusBadRequest ''group_by cannot be empty if provided'')
      else if (case metric_EventName request of
                 None \<Rightarrow> False
               | Some name \<Rightarrow> TrimSpace name = [])
      then Some (NewError StatusBadRequest ''event_name cannot be empty if provided'')
      else None)"

section \<open>The allowlist and the scenarios of the specification\<close>

text \<open>
  The allowlist as the specification tabulates it: a time value maps to the truncation of
  the timestamp rendered as a string, a column value to the column itself.
\<close>

definition bucket_expr :: "string \<Rightarrow> string option" where
  "bucket_expr =
     map_of
       [(''hour'', ''toString(toStartOfHour(timestamp))''),
        (''day'', ''toString(toStartOfDay(timestamp))''),
        (''week'', ''toString(toStartOfWeek(timestamp))''),
        (''month'', ''toString(toStartOfMonth(timestamp))''),
        (''year'', ''toString(toStartOfYear(timestamp))''),
        (''channel'', ''channel''),
        (''campaign_id'', ''campaign_id''),
        (''user_id'', ''user_id''),
        (''event_name'', ''event_name'')]"

text \<open>The templates of an ungrouped metric query: none comes from the request.\<close>

definition total_bucket :: string where
  "total_bucket = CHR 0x27 # ''total'' @ CHR 0x27 # '' AS bucket''"

definition ungrouped_templates :: "string list" where
  "ungrouped_templates =
     [''events FINAL'', total_bucket, ''count() AS total_events'',
      ''uniqExact(user_id) AS unique_users'', ''event_name = ?'', ''timestamp >= ?'',
      ''timestamp <= ?'']"

text \<open>The event of the dedup scenario: \<open>purchase\<close> by \<open>user_1\<close> on \<open>web\<close>.\<close>

definition purchase_event :: EventRequest where
  "purchase_event =
     \<lparr>EventName = ''purchase'', Channel = ''web'', CampaignID = ''c'', UserID = ''user_1'',
      Timestamp = 1700000000, Tags = Some [], Metadata = Some []\<rparr>"

text \<open>
  A cache that holds the fingerprint of \<open>purchase_event\<close> and nothing else, an empty
  cache, and a cache that cannot be reached.
\<close>

definition purchase_key :: string where
  "purchase_key = ''clickhouse_event:purchase|user_1|1700000000|web''"

definition cache_with_purchase :: ClickHouseRedis where
  "cache_with_purchase =
     \<lparr>Get = (\<lambda>key. if key = purchase_key then (''1'', None) else ([], Some redis_Nil)),
      MGet_failure = None,
      MGet_reply = (\<lambda>key. if key = purchase_key then ReplyString ''1'' else ReplyNil),
      expirationMilliseconds = 3600000\<rparr>"

definition cache_empty :: ClickHouseRedis where
  "cache_empty =
     \<lparr>Get = (\<lambda>key. ([], Some redis_Nil)),
      MGet_failure = None,
      MGet_reply = (\<lambda>key. ReplyNil),
      expirationMilliseconds = 3600000\<rparr>"

definition cache_unavailable :: ClickHouseRedis where
  "cache_unavailable =
     \<lparr>Get = (\<lambda>key. ([], Some (ErrorString ''connection refused''))),
      MGet_failure = Some (ErrorString ''connection refused''),
      MGet_reply = (\<lambda>key. ReplyNil),
      expirationMilliseconds = 3600000\<rparr>"

text \<open>A store that accepts every insert, and a runtime.\<close>

definition store_ok :: ch_DB where
  "store_ok = \<lparr>Scan = (\<lambda>q. Inr []), Exec_insert = (\<lambda>cols. None)\<rparr>"

definition go_runtime :: runtime where
  "go_runtime = \<lparr>time_Now = Unix 1800000000, json_Marshal = (\<lambda>md. Inr ''{}'')\<rparr>"

text \<open>
  What the outside answers during a flush when the cache is empty, and when the cache
  holds the fingerprint of \<open>purchase_event\<close>.
\<close>

definition env_fresh :: env where
  "env_fresh = (go_runtime, cache_empty, Some store_ok)"

definition env_seen :: env where
  "env_seen = (go_runtime, cache_with_purchase, Some store_ok)"

text \<open>A started batcher with a queue of capacity 1, empty and full.\<close>

definition batcher_empty :: EventBatcher where
  "batcher_empty =
     \<lparr>eventChan = [], eventChan_cap = 1, eventChan_recvq = NotWaiting, batchSize = 5000,
      isRunning = True, wg = 1, currentBatch = []\<rparr>"

definition batcher_full :: EventBatcher where
  "batcher_full =
     \<lparr>eventChan = [purchase_event], eventChan_cap = 1, eventChan_recvq = NotWaiting,
      batchSize = 5000, isRunning = True, wg = 1, currentBatch = []\<rparr>"

text \<open>
  The store of the metric scenarios: three \<open>purchase\<close> events of distinct users on
  \<open>web\<close>, \<open>web\<close> and \<open>mobile\<close>; the first one written twice; and one \<open>view\<close> event.
\<close>

definition purchase_row :: "string \<Rightarrow> string \<Rightarrow> int64 \<Rightarrow> Event" where
  "purchase_row user channel ingested =
     \<lparr>row_EventName = ''purchase'', row_Channel = channel, row_CampaignID = ''c'',
      row_UserID = user, row_Timestamp = Unix 1700000000, row_Tags = [],
      row_Metadata = [], row_IngestedAt = Unix ingested\<rparr>"

definition scenario_store :: clickhouse where
  "scenario_store =
     \<lparr>table_events =
        [purchase_row ''user_1'' ''web'' 1700000001,
         purchase_row ''user_2'' ''web'' 1700000001,
         purchase_row ''user_1'' ''web'' 1700000002,
         purchase_row ''user_3'' ''mobile'' 1700000001,
         (purchase_row ''user_1'' ''web'' 1700000001)\<lparr>row_EventName := ''view''\<rparr>],
      toStartOf = (\<lambda>ex t. [])\<rparr>"

text \<open>
  A batcher made with a channel of capacity 0, started, whose worker is parked in its
  \<open>select\<close>.
\<close>

definition batcher_unbuffered :: EventBatcher where
  "batcher_unbuffered =
     \<lparr>eventChan = [], eventChan_cap = 0, eventChan_recvq = NotWaiting, batchSize = 5000,
      isRunning = False, wg = 0, currentBatch = []\<rparr>"

definition batcher_unbuffered_parked :: EventBatcher where
  "batcher_unbuffered_parked =
     \<lparr>eventChan = [], eventChan_cap = 0, eventChan_recvq = Waiting, batchSize = 5000,
      isRunning = True, wg = 1, currentBatch = []\<rparr>"

section \<open>The fingerprint\<close>

lemma formatBits_small: "u < 10 \<Longrightarrow> formatBits u = [digit u]"
  by (simp add: formatBits.simps)

lemma formatBits_big: "10 \<le> u \<Longrightarrow> formatBits u = formatBits (u div 10) @ [digit (u mod 10)]"
  by (subst formatBits.simps) simp

lemma digit_cases:
  "d < 10 \<Longrightarrow> d = 0 \<or> d = 1 \<or> d = 2 \<or> d = 3 \<or> d = 4 \<or> d = 5 \<or> d = 6 \<or> d = 7 \<or> d = 8 \<or> d = (9::nat)"
  by arith

lemma digit_value_digit: "d < 10 \<Longrightarrow> digit_value (digit d) = d"
  using digit_cases [of d] by (auto simp: digit_value_def digit_def)

lemma digit_not_minus: "d < 10 \<Longrightarrow> digit d \<noteq> CHR ''-''"
  using digit_cases [of d] by (auto simp: digit_def)

lemma decimal_value_snoc: "decimal_value (s @ [c]) = 10 * decimal_value s + digit_value c"
  by (simp add: decimal_value_def)

lemma decimal_value_formatBits: "decimal_value (formatBits u) = u"
proof (induction u rule: formatBits.induct)
  case (1 u)
  show ?case
  proof (cases "u < 10")
    case True
    then show ?thesis by (simp add: formatBits_small decimal_value_def digit_value_digit)
  next
    case False
    then have "decimal_value (formatBits (u div 10)) = u div 10" using 1 by simp
    with False show ?thesis
      by (simp add: formatBits_big decimal_value_snoc digit_value_digit)
  qed
qed

lemma formatBits_hd: "\<exists>d ds. d < 10 \<and> formatBits u = digit d # ds"
proof (induction u rule: formatBits.induct)
  case (1 u)
  show ?case
  proof (cases "u < 10")
    case True
    then show ?thesis by (auto simp: formatBits_small)
  next
    case False
    then obtain d ds where "d < 10" "formatBits (u div 10) = digit d # ds" using 1 by auto
    with False show ?thesis by (auto simp: formatBits_big)
  qed
qed

lemma decimal_int_FormatInt: "decimal_int (FormatInt i) = i"
proof (cases "i < 0")
  case True
  then show ?thesis by (simp add: decimal_int_def FormatInt_def decimal_value_formatBits)
next
  case False
  obtain d ds where d: "d < 10" "formatBits (nat i) = digit d # ds"
    using formatBits_hd by blast
  have "decimal_value (digit d # ds) = nat i"
    using decimal_value_formatBits [of "nat i"] d by simp
  with False d show ?thesis
    by (simp add: decimal_int_def FormatInt_def digit_not_minus)
qed

lemma FormatInt_1700000000: "FormatInt 1700000000 = ''1700000000''"
  by (simp add: FormatInt_def formatBits_small formatBits_big digit_def)

lemma GetUniqueKey_purchase_event:
  "GetUniqueKey purchase_event = ''purchase|user_1|1700000000|web''"
  by (simp add: GetUniqueKey_def purchase_event_def FormatInt_1700000000)

text \<open>
  C5. The fingerprint of an event is \<open>event_name|user_id|timestamp|channel\<close>, where the
  timestamp component is the decimal numeral of the (signed 64-bit) timestamp: reading
  it back as a decimal numeral gives the timestamp. It is a function of these four
  fields only: replacing \<open>campaign_id\<close>, \<open>tags\<close> and \<open>metadata\<close> by anything leaves it
  unchanged, and two events that agree on the four fields have equal fingerprints.
\<close>

theorem GetUniqueKey_four_fields:
  "GetUniqueKey e =
     EventName e @ ''|'' @ UserID e @ ''|'' @ FormatInt (sint (Timestamp e)) @ ''|'' @ Channel e
   \<and> decimal_int (FormatInt (sint (Timestamp e))) = sint (Timestamp e)
   \<and> GetUniqueKey (e\<lparr>CampaignID := c, Tags := t, Metadata := m\<rparr>) = GetUniqueKey e
   \<and> (EventName e = EventName e' \<and> UserID e = UserID e' \<and> Timestamp e = Timestamp e'
        \<and> Channel e = Channel e' \<longrightarrow> GetUniqueKey e = GetUniqueKey e')"
  by (simp add: GetUniqueKey_def decimal_int_FormatInt)

theorem GetUniqueKey_four_fields_witness:
  "EventName purchase_event = ''purchase'' \<and> UserID purchase_event = ''user_1''
   \<and> Timestamp purchase_event = 1700000000 \<and> Channel purchase_event = ''web''
   \<and> GetUniqueKey purchase_event
       = GetUniqueKey
           \<lparr>EventName = ''purchase'', Channel = ''web'', CampaignID = ''summer'',
            UserID = ''user_1'', Timestamp = 1700000000, Tags = None,
            Metadata = Some [(''k'', JNull)]\<rparr>"
proof -
  let ?e' = "\<lparr>EventName = ''purchase'', Channel = ''web'', CampaignID = ''summer'',
             UserID = ''user_1'', Timestamp = 1700000000, Tags = None,
             Metadata = Some [(''k'', JNull)]\<rparr>"
  have fields: "EventName purchase_event = EventName ?e' \<and> UserID purchase_event = UserID ?e'
      \<and> Timestamp purchase_event = Timestamp ?e' \<and> Channel purchase_event = Channel ?e'"
    by (simp add: purchase_event_def)
  have "GetUniqueKey purchase_event = GetUniqueKey ?e'"
    using GetUniqueKey_four_fields [where e = purchase_event and e' = ?e'] fields by blast
  then show ?thesis by (simp add: purchase_event_def)
qed

text \<open>
  C9. The fingerprint is not injective: the separator is concatenated without escaping,
  so moving a \<open>|\<close> between \<open>event_name\<close> and \<open>user_id\<close> does not change it. The events
  with \<open>event_name = "a|b"\<close>, \<open>user_id = "c"\<close> and with \<open>event_name = "a"\<close>,
  \<open>user_id = "b|c"\<close> (same timestamp and channel) disagree on both fields and have
  the same fingerprint.
\<close>

theorem GetUniqueKey_separator_collision:
  "GetUniqueKey (e\<lparr>EventName := x @ ''|'' @ y, UserID := z\<rparr>)
     = GetUniqueKey (e\<lparr>EventName := x, UserID := y @ ''|'' @ z\<rparr>)
   \<and> EventName (purchase_event\<lparr>EventName := ''a|b'', UserID := ''c''\<rparr>)
       \<noteq> EventName (purchase_event\<lparr>EventName := ''a'', UserID := ''b|c''\<rparr>)
   \<and> UserID (purchase_event\<lparr>EventName := ''a|b'', UserID := ''c''\<rparr>)
       \<noteq> UserID (purchase_event\<lparr>EventName := ''a'', UserID := ''b|c''\<rparr>)
   \<and> Timestamp (purchase_event\<lparr>EventName := ''a|b'', UserID := ''c''\<rparr>)
       = Timestamp (purchase_event\<lparr>EventName := ''a'', UserID := ''b|c''\<rparr>)
   \<and> Channel (purchase_event\<lparr>EventName := ''a|b'', UserID := ''c''\<rparr>)
       = Channel (purchase_event\<lparr>EventName := ''a'', UserID := ''b|c''\<rparr>)
   \<and> GetUniqueKey (purchase_event\<lparr>EventName := ''a|b'', UserID := ''c''\<rparr>)
       = GetUniqueKey (purchase_event\<lparr>EventName := ''a'', UserID := ''b|c''\<rparr>)"
  by (simp add: GetUniqueKey_def)

section \<open>The intake queue\<close>

lemma chansend_blocks_iff:
  "chansend b ep True = Blocks
     \<longleftrightarrow> eventChan_recvq b \<noteq> Waiting \<and> eventChan_cap b \<le> length (eventChan b)"
  by (auto simp: chansend_def)

lemma chansend_nonblocking: "chansend b ep False \<noteq> Blocks"
  by (simp add: chansend_def)

lemma Enqueue_full_iff:
  "Enqueue b event = Some (Some ErrBufferFull, b)
     \<longleftrightarrow> eventChan_recvq b \<noteq> Waiting \<and> eventChan_cap b \<le> length (eventChan b)"
  by (auto simp: Enqueue_def chansend_def)

text \<open>A parked worker means an empty buffer, in every run that starts so.\<close>

lemma flushBatch_channel:
  "eventChan (fst (flushBatch e bt)) = eventChan (fst bt)
   \<and> eventChan_recvq (fst (flushBatch e bt)) = eventChan_recvq (fst bt)"
  by (auto simp: flushBatch_def Let_def split: prod.splits option.splits)

lemma on_receive_channel:
  "eventChan (fst (on_receive e event bt)) = eventChan (fst bt)
   \<and> eventChan_recvq (fst (on_receive e event bt)) = eventChan_recvq (fst bt)"
  by (simp add: on_receive_def Let_def flushBatch_channel)

lemma flushRemaining_recvq:
  "eventChan_recvq (fst (flushRemaining e1 e2 bt)) = eventChan_recvq (fst bt)"
  by (simp add: flushRemaining_def Let_def split_beta flushBatch_channel)

lemma worker_turn_parked:
  "eventChan_recvq (fst bt) = Waiting \<longrightarrow> eventChan (fst bt) = [] \<Longrightarrow>
   eventChan_recvq (fst (worker_turn sc e1 e2 bt)) = Waiting \<longrightarrow>
   eventChan (fst (worker_turn sc e1 e2 bt)) = []"
  by (cases sc; cases "eventChan_recvq (fst bt)"; cases "eventChan (fst bt)")
     (simp_all add: worker_turn_def on_receive_channel flushBatch_channel
        flushRemaining_recvq split_beta Let_def)

lemma Enqueue_parked:
  "eventChan_recvq b = Waiting \<longrightarrow> eventChan b = [] \<Longrightarrow> Enqueue b event = Some (err, b') \<Longrightarrow>
   eventChan_recvq b' = Waiting \<longrightarrow> eventChan b' = []"
  by (auto simp: Enqueue_def chansend_def split: if_splits)

lemma run_parked:
  "eventChan_recvq (fst bt) = Waiting \<longrightarrow> eventChan (fst bt) = [] \<Longrightarrow>
   eventChan_recvq (fst (run as bt)) = Waiting \<longrightarrow> eventChan (fst (run as bt)) = []"
proof (induction as arbitrary: bt)
  case Nil
  then show ?case by simp
next
  case (Cons a as)
  show ?case
  proof (cases a)
    case (Producer event)
    show ?thesis
    proof (cases "Enqueue (fst bt) event")
      case None
      with Cons Producer show ?thesis by simp
    next
      case (Some r)
      obtain err b' where r: "r = (err, b')" by (cases r)
      have "eventChan_recvq b' = Waiting \<longrightarrow> eventChan b' = []"
        using Enqueue_parked [OF Cons.prems] Some r by simp
      then show ?thesis
        using Cons.IH [of "(b', snd bt)"] Producer Some r by simp
    qed
  next
    case Worker_parks
    show ?thesis
      using Cons.IH [of "((fst bt)\<lparr>eventChan_recvq := Waiting\<rparr>, snd bt)"] Cons.IH [of bt]
        Cons.prems Worker_parks
      by simp
  next
    case (Worker sc e1 e2)
    show ?thesis
      using Cons.IH [of "worker_turn sc e1 e2 bt"] Cons.IH [of bt] Cons.prems
        worker_turn_parked [of bt sc e1 e2] Worker
      by simp
  qed
qed

text \<open>
  C6, as the code has it. \<open>Enqueue\<close> returns in every state, where a blocking send
  would park the sender exactly in the states in which \<open>Enqueue\<close> reports
  \<open>ErrBufferFull\<close>. When the worker is parked on its receive, the event is handed to it
  and no error is returned, whatever the capacity and without a change of the buffer.
  Otherwise, with fewer events than the capacity in the buffer, the event is appended at
  the tail and no error is returned; and at capacity \<open>ErrBufferFull\<close> is returned and the
  batcher, buffer included, is unchanged. In every run the buffer is empty whenever the
  worker is parked.
\<close>

theorem Enqueue_nonblocking:
  "Enqueue b event \<noteq> None
   \<and> (chansend b event True = Blocks \<longleftrightarrow> Enqueue b event = Some (Some ErrBufferFull, b))
   \<and> (eventChan_recvq b = Waiting \<longrightarrow>
        Enqueue b event = Some (None, b\<lparr>eventChan_recvq := Delivered event\<rparr>))
   \<and> (eventChan_recvq b \<noteq> Waiting \<and> length (eventChan b) < eventChan_cap b \<longrightarrow>
        Enqueue b event = Some (None, b\<lparr>eventChan := eventChan b @ [event]\<rparr>))
   \<and> (eventChan_recvq b \<noteq> Waiting \<and> eventChan_cap b \<le> length (eventChan b) \<longrightarrow>
        Enqueue b event = Some (Some ErrBufferFull, b))
   \<and> ((eventChan_recvq b = Waiting \<longrightarrow> eventChan b = []) \<longrightarrow>
        (eventChan_recvq (fst (run as (b, trace))) = Waiting \<longrightarrow>
         eventChan (fst (run as (b, trace))) = []))"
proof -
  have returns: "Enqueue b event \<noteq> None"
    by (simp add: Enqueue_def chansend_def)
  have blocking: "chansend b event True = Blocks
                    \<longleftrightarrow> Enqueue b event = Some (Some ErrBufferFull, b)"
    by (simp add: chansend_blocks_iff Enqueue_full_iff)
  have cases: "(eventChan_recvq b = Waiting \<longrightarrow>
        Enqueue b event = Some (None, b\<lparr>eventChan_recvq := Delivered event\<rparr>))
   \<and> (eventChan_recvq b \<noteq> Waiting \<and> length (eventChan b) < eventChan_cap b \<longrightarrow>
        Enqueue b event = Some (None, b\<lparr>eventChan := eventChan b @ [event]\<rparr>))
   \<and> (eventChan_recvq b \<noteq> Waiting \<and> eventChan_cap b \<le> length (eventChan b) \<longrightarrow>
        Enqueue b event = Some (Some ErrBufferFull, b))"
    by (simp add: Enqueue_def chansend_def)
  show ?thesis
    using returns blocking cases run_parked [of "(b, trace)" as] by simp
qed

theorem Enqueue_nonblocking_witness:
  "Enqueue batcher_unbuffered_parked purchase_event
     = Some (None, batcher_unbuffered_parked\<lparr>eventChan_recvq := Delivered purchase_event\<rparr>)
   \<and> Enqueue batcher_empty purchase_event = Some (None, batcher_full)
   \<and> Enqueue batcher_full purchase_event = Some (Some ErrBufferFull, batcher_full)
   \<and> chansend batcher_full purchase_event True = Blocks
   \<and> eventChan (fst (run [Worker_parks, Producer purchase_event] (batcher_empty, []))) = []"
proof -
  have parked: "eventChan_recvq batcher_unbuffered_parked = Waiting"
    by (simp add: batcher_unbuffered_parked_def)
  have room: "eventChan_recvq batcher_empty \<noteq> Waiting
                \<and> length (eventChan batcher_empty) < eventChan_cap batcher_empty"
    by (simp add: batcher_empty_def)
  have no_room: "eventChan_recvq batcher_full \<noteq> Waiting
                   \<and> eventChan_cap batcher_full \<le> length (eventChan batcher_full)"
    by (simp add: batcher_full_def)
  have queued: "batcher_empty\<lparr>eventChan := eventChan batcher_empty @ [purchase_event]\<rparr>
                  = batcher_full"
    by (simp add: batcher_empty_def batcher_full_def)
  have handed: "Enqueue batcher_unbuffered_parked purchase_event
     = Some (None, batcher_unbuffered_parked\<lparr>eventChan_recvq := Delivered purchase_event\<rparr>)"
    using Enqueue_nonblocking [of batcher_unbuffered_parked purchase_event] parked by blast
  have appended: "Enqueue batcher_empty purchase_event = Some (None, batcher_full)"
    using Enqueue_nonblocking [of batcher_empty purchase_event] room queued by simp
  have full: "Enqueue batcher_full purchase_event = Some (Some ErrBufferFull, batcher_full)"
    using Enqueue_nonblocking [of batcher_full purchase_event] no_room by blast
  have blocks: "chansend batcher_full purchase_event True = Blocks"
    using Enqueue_nonblocking [of batcher_full purchase_event] full by blast
  have run: "eventChan (fst (run [Worker_parks, Producer purchase_event] (batcher_empty, [])))
               = []"
    by (simp add: batcher_empty_def Enqueue_def chansend_def)
  show ?thesis
    using handed appended full blocks run by simp
qed

text \<open>
  C6 as stated fails for a channel of capacity 0, which \<open>NewEventBatcher\<close> makes when
  the configured buffer capacity is 0: once the started worker is parked in its
  \<open>select\<close>, the queue is at capacity (it holds 0 events) and \<open>Enqueue\<close> returns no
  error.
\<close>

theorem Enqueue_unbuffered_handoff:
  "NewEventBatcher 0 5000 = Some batcher_unbuffered
   \<and> run [Worker_parks] (Start batcher_unbuffered, []) = (batcher_unbuffered_parked, [])
   \<and> eventChan_cap batcher_unbuffered_parked \<le> length (eventChan batcher_unbuffered_parked)
   \<and> Enqueue batcher_unbuffered_parked purchase_event
       = Some (None, batcher_unbuffered_parked\<lparr>eventChan_recvq := Delivered purchase_event\<rparr>)"
  by (simp add: NewEventBatcher_def batcher_unbuffered_def batcher_unbuffered_parked_def
        Start_def Enqueue_def chansend_def)

section \<open>The dedup filter\<close>

lemma filter_loop_eq:
  "filter_loop maps events acc = acc @ filter (\<lambda>e. maps (GetUniqueKey e) \<noteq> Some True) events"
  unfolding filter_loop_def
  by (induction events arbitrary: acc) (auto split: option.splits)

text \<open>The map of the batch lookup, and so the filter, in terms of the replies of the cache.\<close>

lemma processedMap_step_apply:
  "processedMap_step requests (i, res) m k
     = (if k = GetUniqueKey (requests ! i) then reply_update res (m k) else m k)"
  by (simp add: processedMap_step_def reply_update_def split: mget_reply.splits)

lemma reply_update_idem: "reply_update res (reply_update res old) = reply_update res old"
  by (simp add: reply_update_def split: mget_reply.splits)

lemma fold_processedMap_step:
  "\<forall>(i, res) \<in> set irs. res = g (GetUniqueKey (requests ! i)) \<Longrightarrow>
   fold (processedMap_step requests) irs m k
     = (if k \<in> (\<lambda>ir. GetUniqueKey (requests ! fst ir)) ` set irs
        then reply_update (g k) (m k) else m k)"
proof (induction irs arbitrary: m)
  case Nil
  then show ?case by simp
next
  case (Cons ir irs)
  obtain i res where ir: "ir = (i, res)" by (cases ir)
  have res: "res = g (GetUniqueKey (requests ! i))" using Cons.prems ir by simp
  have rest: "\<forall>(i, res) \<in> set irs. res = g (GetUniqueKey (requests ! i))"
    using Cons.prems by simp
  define m' where "m' = processedMap_step requests ir m"
  have step: "m' k' = (if k' = GetUniqueKey (requests ! i) then reply_update (g k') (m k') else m k')"
    for k'
    using res by (simp add: m'_def ir processedMap_step_apply)
  have "fold (processedMap_step requests) (ir # irs) m k
          = fold (processedMap_step requests) irs m' k"
    by (simp add: m'_def)
  also have "\<dots> = (if k \<in> (\<lambda>ir. GetUniqueKey (requests ! fst ir)) ` set irs
                     then reply_update (g k) (m' k) else m' k)"
    by (rule Cons.IH [OF rest])
  also have "\<dots> = (if k \<in> (\<lambda>ir. GetUniqueKey (requests ! fst ir)) ` set (ir # irs)
                     then reply_update (g k) (m k) else m k)"
    by (auto simp: step ir reply_update_idem)
  finally show ?case .
qed

lemma AreEventsProcessed_map:
  assumes "MGet_failure r = None" and "e \<in> set requests"
  shows "\<exists>m. AreEventsProcessed r requests = Inr m
           \<and> m (GetUniqueKey e)
               = reply_update (MGet_reply r (RedisKeyPrefix @ GetUniqueKey e)) None"
proof -
  let ?g = "\<lambda>k. MGet_reply r (RedisKeyPrefix @ k)"
  let ?results = "map (MGet_reply r) (map (\<lambda>request. RedisKeyPrefix @ GetUniqueKey request) requests)"
  let ?irs = "enumerate 0 ?results"
  have each: "\<forall>(i, res) \<in> set ?irs. res = ?g (GetUniqueKey (requests ! i))"
    by (auto simp: in_set_enumerate_eq)
  obtain i where i: "i < length requests" "requests ! i = e"
    using assms(2) by (auto simp: in_set_conv_nth)
  then have "(i, ?results ! i) \<in> set ?irs"
    by (simp add: in_set_enumerate_eq)
  then have mem: "GetUniqueKey e \<in> (\<lambda>ir. GetUniqueKey (requests ! fst ir)) ` set ?irs"
    using i by force
  have "fold (processedMap_step requests) ?irs Map.empty (GetUniqueKey e)
          = reply_update (?g (GetUniqueKey e)) None"
    using fold_processedMap_step [OF each, of Map.empty "GetUniqueKey e"] mem by simp
  then show ?thesis
    using assms(1) by (simp add: AreEventsProcessed_def MGet_def)
qed

lemma filterProcessedEvents_by_reply:
  "filterProcessedEvents r events =
     (case MGet_failure r of
        Some err \<Rightarrow> events
      | None \<Rightarrow>
          filter (\<lambda>e. MGet_reply r (RedisKeyPrefix @ GetUniqueKey e) \<noteq> ReplyString ''1'') events)"
proof (cases "MGet_failure r")
  case (Some err)
  then show ?thesis
    by (simp add: filterProcessedEvents_def AreEventsProcessed_def MGet_def
          filterProcessedEvents_of_def)
next
  case None
  obtain m where m: "AreEventsProcessed r events = Inr m"
    using None by (auto simp: AreEventsProcessed_def MGet_def)
  have "m (GetUniqueKey e) \<noteq> Some True
          \<longleftrightarrow> MGet_reply r (RedisKeyPrefix @ GetUniqueKey e) \<noteq> ReplyString ''1''"
    if "e \<in> set events" for e
    using AreEventsProcessed_map [OF None that] m
    by (auto simp: reply_update_def split: mget_reply.splits if_splits)
  then have "filter (\<lambda>e. m (GetUniqueKey e) \<noteq> Some True) events
               = filter (\<lambda>e. MGet_reply r (RedisKeyPrefix @ GetUniqueKey e) \<noteq> ReplyString ''1'')
                   events"
    by (intro filter_cong) auto
  then show ?thesis
    by (simp add: filterProcessedEvents_def m filterProcessedEvents_of_def filter_loop_eq None)
qed

text \<open>
  C7. Given the mapping returned by the batch lookup, the filter returns the events
  whose fingerprint the mapping does not send to \<open>true\<close> (absent fingerprints are kept),
  in input order; when the lookup returns an error, it returns the input unchanged. In
  terms of the cache: when \<open>MGET\<close> fails every event is kept, otherwise exactly the
  events whose key does not hold \<open>"1"\<close>.
\<close>

theorem filterProcessedEvents_keeps_unprocessed:
  "filterProcessedEvents_of (Inr maps) events
     = filter (\<lambda>e. maps (GetUniqueKey e) \<noteq> Some True) events
   \<and> filterProcessedEvents_of (Inl err) events = events
   \<and> filterProcessedEvents redisRepo events
     = (case AreEventsProcessed redisRepo events of
          Inl err \<Rightarrow> events
        | Inr maps \<Rightarrow> filter (\<lambda>e. maps (GetUniqueKey e) \<noteq> Some True) events)
   \<and> filterProcessedEvents redisRepo events
     = (case MGet_failure redisRepo of
          Some err \<Rightarrow> events
        | None \<Rightarrow>
            filter (\<lambda>e. MGet_reply redisRepo (RedisKeyPrefix @ GetUniqueKey e)
                          \<noteq> ReplyString ''1'') events)
   \<and> subseq (filterProcessedEvents redisRepo events) events"
proof -
  have by_map: "filterProcessedEvents redisRepo events
     = (case AreEventsProcessed redisRepo events of
          Inl err \<Rightarrow> events
        | Inr maps \<Rightarrow> filter (\<lambda>e. maps (GetUniqueKey e) \<noteq> Some True) events)"
    by (simp add: filterProcessedEvents_of_def filterProcessedEvents_def filter_loop_eq
          split: sum.splits)
  have sub: "subseq (filterProcessedEvents redisRepo events) events"
    unfolding by_map by (simp split: sum.splits)
  show ?thesis
    using by_map sub filterProcessedEvents_by_reply [of redisRepo events]
    by (simp add: filterProcessedEvents_of_def filter_loop_eq)
qed

section \<open>Posting a single event\<close>

lemma IsEventProcessed_error:
  "snd (IsEventProcessed r e) \<noteq> None \<Longrightarrow> \<not> fst (IsEventProcessed r e)"
  by (auto simp: IsEventProcessed_def Let_def split: prod.splits option.splits if_splits)

lemma Enqueue_reports_full:
  "Enqueue b e = Some (Some err, b') \<Longrightarrow>
   err = ErrBufferFull \<and> b' = b \<and> eventChan_recvq b \<noteq> Waiting
   \<and> eventChan_cap b \<le> length (eventChan b)"
  by (auto simp: Enqueue_def chansend_def split: if_splits)

lemma Enqueue_reports_sent:
  "Enqueue b e = Some (None, b') \<Longrightarrow>
   (eventChan_recvq b = Waiting \<and> b' = b\<lparr>eventChan_recvq := Delivered e\<rparr>)
   \<or> (eventChan_recvq b \<noteq> Waiting \<and> length (eventChan b) < eventChan_cap b
      \<and> b' = b\<lparr>eventChan := eventChan b @ [e]\<rparr>)"
  by (auto simp: Enqueue_def chansend_def split: if_splits)

lemma Enqueue_returns: "\<exists>err b'. Enqueue b e = Some (err, b')"
  by (simp add: Enqueue_def chansend_def)

text \<open>
  C2. \<open>PostEvents\<close> returns in every state. When the cache lookup reports the event
  processed, it answers success with the message "Event already processed" and leaves
  the batcher, queue included, as it was. A cache lookup that returns an error reports
  the event as not processed, so the event goes to \<open>Enqueue\<close> as after a miss. For an
  event not reported processed: when \<open>Enqueue\<close> reports an error, the error is
  \<open>ErrBufferFull\<close> (the buffer is at capacity and the worker is not parked on its
  receive), the batcher is unchanged and the answer is a failure together with that
  error; when \<open>Enqueue\<close> reports none, the event is in the queue (appended to the buffer,
  or handed to the parked worker) and the answer is success.
\<close>

theorem PostEvents_degrade_open:
  "PostEvents r b e \<noteq> None
   \<and> (fst (IsEventProcessed r e) \<longrightarrow>
        PostEvents r b e
          = Some ((\<lparr>Success = True, Message = ''Event already processed''\<rparr>, None), b))
   \<and> (snd (IsEventProcessed r e) \<noteq> None \<longrightarrow> \<not> fst (IsEventProcessed r e))
   \<and> (\<not> fst (IsEventProcessed r e) \<and> Enqueue b e = Some (Some err, b') \<longrightarrow>
        err = ErrBufferFull \<and> b' = b
        \<and> eventChan_recvq b \<noteq> Waiting \<and> eventChan_cap b \<le> length (eventChan b)
        \<and> PostEvents r b e
            = Some ((\<lparr>Success = False,
                      Message = ''Event buffer is full, please try again later''\<rparr>,
                     Some ErrBufferFull), b))
   \<and> (\<not> fst (IsEventProcessed r e) \<and> Enqueue b e = Some (None, b') \<longrightarrow>
        (b' = b\<lparr>eventChan_recvq := Delivered e\<rparr> \<or> b' = b\<lparr>eventChan := eventChan b @ [e]\<rparr>)
        \<and> PostEvents r b e
            = Some ((\<lparr>Success = True, Message = ''Event posted successfully''\<rparr>, None), b'))"
proof -
  have returns: "PostEvents r b e \<noteq> None"
    using Enqueue_returns [of b e]
    by (auto simp: PostEvents_def split: prod.splits option.splits)
  have seen: "fst (IsEventProcessed r e) \<longrightarrow>
        PostEvents r b e
          = Some ((\<lparr>Success = True, Message = ''Event already processed''\<rparr>, None), b)"
    by (auto simp: PostEvents_def split: prod.splits)
  have failed: "\<not> fst (IsEventProcessed r e) \<and> Enqueue b e = Some (Some err, b') \<longrightarrow>
        err = ErrBufferFull \<and> b' = b
        \<and> eventChan_recvq b \<noteq> Waiting \<and> eventChan_cap b \<le> length (eventChan b)
        \<and> PostEvents r b e
            = Some ((\<lparr>Success = False,
                      Message = ''Event buffer is full, please try again later''\<rparr>,
                     Some ErrBufferFull), b)"
    using Enqueue_reports_full [of b e err b']
    by (auto simp: PostEvents_def split: prod.splits)
  have queued: "\<not> fst (IsEventProcessed r e) \<and> Enqueue b e = Some (None, b') \<longrightarrow>
        (b' = b\<lparr>eventChan_recvq := Delivered e\<rparr> \<or> b' = b\<lparr>eventChan := eventChan b @ [e]\<rparr>)
        \<and> PostEvents r b e
            = Some ((\<lparr>Success = True, Message = ''Event posted successfully''\<rparr>, None), b')"
    using Enqueue_reports_sent [of b e b']
    by (auto simp: PostEvents_def split: prod.splits)
  show ?thesis
    using returns seen failed queued IsEventProcessed_error [of r e] by blast
qed

lemma IsEventProcessed_hit:
  "IsEventProcessed cache_with_purchase purchase_event = (True, None)"
  by (simp add: IsEventProcessed_def cache_with_purchase_def purchase_key_def
        RedisKeyPrefix_def GetUniqueKey_purchase_event)

lemma IsEventProcessed_miss:
  "IsEventProcessed cache_empty purchase_event = (False, None)"
  by (simp add: IsEventProcessed_def cache_empty_def)

lemma IsEventProcessed_down:
  "IsEventProcessed cache_unavailable purchase_event
     = (False, Some (ErrorString ''connection refused''))"
  by (simp add: IsEventProcessed_def cache_unavailable_def)

lemma Enqueue_batcher_empty: "Enqueue batcher_empty purchase_event = Some (None, batcher_full)"
  by (simp add: Enqueue_def chansend_def batcher_empty_def batcher_full_def)

lemma Enqueue_batcher_full:
  "Enqueue batcher_full purchase_event = Some (Some ErrBufferFull, batcher_full)"
  by (simp add: Enqueue_def chansend_def batcher_full_def)

lemma Enqueue_batcher_unbuffered_parked:
  "Enqueue batcher_unbuffered_parked purchase_event
     = Some (None, batcher_unbuffered_parked\<lparr>eventChan_recvq := Delivered purchase_event\<rparr>)"
  by (simp add: Enqueue_def chansend_def batcher_unbuffered_parked_def)

theorem PostEvents_degrade_open_witness:
  "PostEvents cache_with_purchase batcher_empty purchase_event
     = Some ((\<lparr>Success = True, Message = ''Event already processed''\<rparr>, None), batcher_empty)
   \<and> snd (IsEventProcessed cache_unavailable purchase_event) \<noteq> None
   \<and> PostEvents cache_unavailable batcher_empty purchase_event
     = Some ((\<lparr>Success = True, Message = ''Event posted successfully''\<rparr>, None), batcher_full)
   \<and> PostEvents cache_empty batcher_full purchase_event
     = Some ((\<lparr>Success = False, Message = ''Event buffer is full, please try again later''\<rparr>,
              Some ErrBufferFull), batcher_full)
   \<and> PostEvents cache_empty batcher_unbuffered_parked purchase_event
     = Some ((\<lparr>Success = True, Message = ''Event posted successfully''\<rparr>, None),
             batcher_unbuffered_parked\<lparr>eventChan_recvq := Delivered purchase_event\<rparr>)"
proof -
  have c1: "PostEvents cache_with_purchase batcher_empty purchase_event
     = Some ((\<lparr>Success = True, Message = ''Event already processed''\<rparr>, None), batcher_empty)"
    using PostEvents_degrade_open [of cache_with_purchase batcher_empty purchase_event]
    by (simp add: IsEventProcessed_hit)
  have c2: "PostEvents cache_unavailable batcher_empty purchase_event
     = Some ((\<lparr>Success = True, Message = ''Event posted successfully''\<rparr>, None), batcher_full)"
    using PostEvents_degrade_open
      [of cache_unavailable batcher_empty purchase_event _ batcher_full]
    by (simp add: IsEventProcessed_down Enqueue_batcher_empty)
  have c3: "PostEvents cache_empty batcher_full purchase_event
     = Some ((\<lparr>Success = False, Message = ''Event buffer is full, please try again later''\<rparr>,
              Some ErrBufferFull), batcher_full)"
    using PostEvents_degrade_open
      [of cache_empty batcher_full purchase_event ErrBufferFull batcher_full]
    by (simp add: IsEventProcessed_miss Enqueue_batcher_full)
  have c4: "PostEvents cache_empty batcher_unbuffered_parked purchase_event
     = Some ((\<lparr>Success = True, Message = ''Event posted successfully''\<rparr>, None),
             batcher_unbuffered_parked\<lparr>eventChan_recvq := Delivered purchase_event\<rparr>)"
    using PostEvents_degrade_open
      [of cache_empty batcher_unbuffered_parked purchase_event _
          "batcher_unbuffered_parked\<lparr>eventChan_recvq := Delivered purchase_event\<rparr>"]
    by (simp add: IsEventProcessed_miss Enqueue_batcher_unbuffered_parked)
  show ?thesis using c1 c2 c3 c4 by (simp add: IsEventProcessed_down)
qed

section \<open>Posting events in bulk\<close>

lemma AreEventsProcessed_purchase:
  "AreEventsProcessed cache_with_purchase [purchase_event]
     = Inr [''purchase|user_1|1700000000|web'' \<mapsto> True]"
  by (simp add: AreEventsProcessed_def MGet_def cache_with_purchase_def purchase_key_def
        RedisKeyPrefix_def GetUniqueKey_purchase_event processedMap_step_def enumerate_eq_zip)

lemma filterProcessedEvents_purchase:
  "filterProcessedEvents cache_with_purchase [purchase_event] = []"
  by (simp add: filterProcessedEvents_def AreEventsProcessed_purchase
        filterProcessedEvents_of_def filter_loop_def GetUniqueKey_purchase_event)

lemma PostEventsBulk_by_writer:
  "PostEventsBulk rt r c bulkData =
     (let n = int (length (Events bulkData));
          filteredEvents = filterProcessedEvents r (Events bulkData)
      in case SaveEvents rt c filteredEvents of
           None \<Rightarrow>
             (\<lparr>bulk_Success = True, bulk_Message = ''Bulk events posted successfully'',
               TotalCount = n, SuccessCount = n, FailureCount = 0\<rparr>, None, Some filteredEvents)
         | Some err \<Rightarrow>
             (\<lparr>bulk_Success = False,
               bulk_Message = ''Failed to save bulk events: '' @ Error err,
               TotalCount = n, SuccessCount = 0, FailureCount = n\<rparr>, Some err, None))"
  by (simp add: PostEventsBulk_def Let_def split: option.splits)

lemma PostEventsBulk_TotalCount:
  "TotalCount (fst (PostEventsBulk rt r c bulkData)) = int (length (Events bulkData))"
  by (simp add: PostEventsBulk_def Let_def split: option.splits)

lemma PostEventsBulk_all_filtered:
  "filterProcessedEvents r (Events bulkData) = [] \<Longrightarrow>
   PostEventsBulk rt r (Some db) bulkData
     = (\<lparr>bulk_Success = False,
         bulk_Message = ''Failed to save bulk events: no events to insert'',
         TotalCount = int (length (Events bulkData)), SuccessCount = 0,
         FailureCount = int (length (Events bulkData))\<rparr>,
        Some (ErrorString ''no events to insert''), None)"
  by (simp add: PostEventsBulk_def SaveEvents_def Let_def)

text \<open>
  The bulk scenario of the specification: of three events the second is in the cache;
  the writer receives the other two and the response counts all three as successes.
\<close>

lemma PostEventsBulk_one_seen:
  "PostEventsBulk go_runtime cache_with_purchase (Some store_ok)
     \<lparr>Events = [purchase_event\<lparr>UserID := ''user_2''\<rparr>, purchase_event,
                purchase_event\<lparr>UserID := ''user_3''\<rparr>]\<rparr>
   = (\<lparr>bulk_Success = True, bulk_Message = ''Bulk events posted successfully'',
       TotalCount = 3, SuccessCount = 3, FailureCount = 0\<rparr>,
      None,
      Some [purchase_event\<lparr>UserID := ''user_2''\<rparr>, purchase_event\<lparr>UserID := ''user_3''\<rparr>])"
proof -
  have kept: "filterProcessedEvents cache_with_purchase
                [purchase_event\<lparr>UserID := ''user_2''\<rparr>, purchase_event,
                 purchase_event\<lparr>UserID := ''user_3''\<rparr>]
              = [purchase_event\<lparr>UserID := ''user_2''\<rparr>, purchase_event\<lparr>UserID := ''user_3''\<rparr>]"
    by (simp add: filterProcessedEvents_by_reply cache_with_purchase_def purchase_key_def
          RedisKeyPrefix_def GetUniqueKey_def purchase_event_def FormatInt_1700000000)
  have written: "SaveEvents go_runtime (Some store_ok)
                   [purchase_event\<lparr>UserID := ''user_2''\<rparr>, purchase_event\<lparr>UserID := ''user_3''\<rparr>]
                 = None"
    by (simp add: SaveEvents_def go_runtime_def store_ok_def purchase_event_def)
  show ?thesis
    by (simp add: PostEventsBulk_by_writer kept written)
qed

text \<open>
  C1. A bulk request whose only event is already in the cache: the filter leaves no
  event, the writer is called with the empty list and returns "no events to insert",
  and the response reports the whole request as failed (\<open>success = false\<close>,
  \<open>success_count = 0\<close>, \<open>failure_count = 1\<close>), where the claim has
  \<open>success = true\<close>, \<open>success_count = 1\<close> and \<open>failure_count = 0\<close>.
\<close>

theorem PostEventsBulk_all_seen_fails:
  "filterProcessedEvents cache_with_purchase [purchase_event] = []
   \<and> PostEventsBulk go_runtime cache_with_purchase (Some store_ok) \<lparr>Events = [purchase_event]\<rparr>
     = (\<lparr>bulk_Success = False,
         bulk_Message = ''Failed to save bulk events: no events to insert'',
         TotalCount = 1, SuccessCount = 0, FailureCount = 1\<rparr>,
        Some (ErrorString ''no events to insert''), None)"
  using PostEventsBulk_all_filtered
    [of cache_with_purchase "\<lparr>Events = [purchase_event]\<rparr>" go_runtime store_ok]
  by (simp add: filterProcessedEvents_purchase)

section \<open>Validating an event\<close>

lemma leading_space_Nil: "leading_space space_runes [] = 0"
  by (simp add: leading_space_def space_runes_def)

lemma leading_space_rev_Nil: "leading_space (map rev space_runes) [] = 0"
  by (simp add: leading_space_def space_runes_def)

lemma TrimSpace_Nil: "TrimSpace [] = []"
  by (simp add: TrimSpace_def trim_left.simps [of _ "[]"] leading_space_Nil
        leading_space_rev_Nil)

lemma TrimSpace_nonempty: "TrimSpace s \<noteq> [] \<Longrightarrow> s \<noteq> []"
  using TrimSpace_Nil by auto

lemma TrimSpace_blank: "TrimSpace '' '' = []"
  by (simp add: TrimSpace_def trim_left.simps leading_space_def space_runes_def)

lemma TrimSpace_purchase: "TrimSpace ''purchase'' = ''purchase''"
  by (simp add: TrimSpace_def trim_left.simps leading_space_def space_runes_def)

lemma TrimSpace_web: "TrimSpace ''web'' = ''web''"
  by (simp add: TrimSpace_def trim_left.simps leading_space_def space_runes_def)

text \<open>What the code accepts: the contract with \<open>user_id\<close> and \<open>campaign_id\<close> untrimmed.\<close>

lemma ValidateEventRequest_accepts_iff:
  "ValidateEventRequest now request = None \<longleftrightarrow>
     TrimSpace (EventName request) \<noteq> [] \<and> TrimSpace (Channel request) \<noteq> []
     \<and> UserID request \<noteq> [] \<and> CampaignID request \<noteq> []
     \<and> 0 < sint (Timestamp request) \<and> sint (Timestamp request) \<le> sint now
     \<and> (\<exists>tags. Tags request = Some tags \<and> \<not> list_ex (\<lambda>tag. TrimSpace tag = []) tags)
     \<and> (\<exists>md. Metadata request = Some md \<and> \<not> list_ex (\<lambda>kv. TrimSpace (fst kv) = []) md)"
  by (auto simp: ValidateEventRequest_def split: option.splits)

lemma ValidateEventRequest_rejects_400:
  "ValidateEventRequest now request = Some err \<Longrightarrow> \<exists>msg. err = NewError 400 msg"
  by (auto simp: ValidateEventRequest_def StatusBadRequest_def split: option.splits if_splits)

lemma meets_validation_contract_accepted:
  "meets_validation_contract now request \<Longrightarrow> ValidateEventRequest now request = None"
  unfolding ValidateEventRequest_accepts_iff meets_validation_contract_def
  by (auto dest: TrimSpace_nonempty split: option.splits)

text \<open>
  C8. A request that is valid except that its \<open>user_id\<close> is a single space, and one
  whose \<open>campaign_id\<close> is a single space: both fields are empty after trimming, so the
  contract is not met, yet \<open>ValidateEventRequest\<close> returns no error. The checks of
  \<open>user_id\<close> and \<open>campaign_id\<close> compare the untrimmed field with the empty string,
  where those of \<open>event_name\<close> and \<open>channel\<close> trim first.
\<close>

theorem ValidateEventRequest_accepts_blank_user_id:
  "TrimSpace (UserID (purchase_event\<lparr>UserID := '' ''\<rparr>)) = []
   \<and> \<not> meets_validation_contract 1800000000 (purchase_event\<lparr>UserID := '' ''\<rparr>)
   \<and> ValidateEventRequest 1800000000 (purchase_event\<lparr>UserID := '' ''\<rparr>) = None
   \<and> \<not> meets_validation_contract 1800000000 (purchase_event\<lparr>CampaignID := '' ''\<rparr>)
   \<and> ValidateEventRequest 1800000000 (purchase_event\<lparr>CampaignID := '' ''\<rparr>) = None"
  by (simp add: ValidateEventRequest_accepts_iff meets_validation_contract_def
        purchase_event_def TrimSpace_blank TrimSpace_purchase TrimSpace_web)

section \<open>The metric query planner\<close>

text \<open>The \<open>switch\<close> of \<open>GetMetrics\<close> is the allowlist table.\<close>

lemma GetMetrics_groupExpr_table:
  "GetMetrics_groupExpr groupBy
     = (case Option.bind groupBy bucket_expr of None \<Rightarrow> [] | Some ex \<Rightarrow> ex)"
  by (cases groupBy) (simp_all add: GetMetrics_groupExpr_def bucket_expr_def)

lemma bucket_expr_nonempty: "bucket_expr g = Some ex \<Longrightarrow> ex \<noteq> []"
  by (auto simp: bucket_expr_def split: if_splits)

lemma bucket_expr_allowlist: "bucket_expr g \<noteq> None \<longleftrightarrow> g \<in> set group_by_allowlist"
  by (simp add: bucket_expr_def group_by_allowlist_def)

lemma GetMetrics_groupExpr_None:
  "Option.bind groupBy bucket_expr = None \<Longrightarrow> GetMetrics_groupExpr groupBy = []"
  by (simp add: GetMetrics_groupExpr_table)

lemma GetMetrics_groupExpr_Some:
  "Option.bind groupBy bucket_expr = Some ex \<Longrightarrow>
   GetMetrics_groupExpr groupBy = ex \<and> ex \<noteq> []"
  by (auto simp: GetMetrics_groupExpr_table bucket_expr_nonempty split: Option.bind_splits)

lemma GetMetrics_query_ungrouped:
  "GetMetrics_groupExpr (GroupBy request) = [] \<Longrightarrow>
   GetMetrics_query request =
     \<lparr>q_table = [(''events FINAL'', [])],
      q_column =
        [(total_bucket, []), (''count() AS total_events'', []),
         (''uniqExact(user_id) AS unique_users'', [])],
      q_where =
        (case metric_EventName request of
           None \<Rightarrow> []
         | Some name \<Rightarrow> if name \<noteq> [] then [(''event_name = ?'', [ArgString name])] else [])
        @ (case From request of
             None \<Rightarrow> []
           | Some from \<Rightarrow> [(''timestamp >= ?'', [ArgTime (Unix from)])])
        @ (case To request of
             None \<Rightarrow> []
           | Some to \<Rightarrow> [(''timestamp <= ?'', [ArgTime (Unix to)])]),
      q_group = [],
      q_order = []\<rparr>"
  by (simp add: GetMetrics_query_def total_bucket_def NewSelect_def
        TableExpr_def ColumnExpr_def Where_def split: option.splits)

lemma GetMetrics_query_grouped:
  "GetMetrics_groupExpr (GroupBy request) = ex \<Longrightarrow> ex \<noteq> [] \<Longrightarrow>
   GetMetrics_query request =
     \<lparr>q_table = [(''events FINAL'', [])],
      q_column =
        [(''? AS bucket'', [Safe ex]), (''count() AS total_events'', []),
         (''uniqExact(user_id) AS unique_users'', [])],
      q_where =
        (case metric_EventName request of
           None \<Rightarrow> []
         | Some name \<Rightarrow> if name \<noteq> [] then [(''event_name = ?'', [ArgString name])] else [])
        @ (case From request of
             None \<Rightarrow> []
           | Some from \<Rightarrow> [(''timestamp >= ?'', [ArgTime (Unix from)])])
        @ (case To request of
             None \<Rightarrow> []
           | Some to \<Rightarrow> [(''timestamp <= ?'', [ArgTime (Unix to)])]),
      q_group = [(ex, [])],
      q_order = [(''bucket ASC'', [])]\<rparr>"
  by (simp add: GetMetrics_query_def NewSelect_def
        TableExpr_def ColumnExpr_def Where_def GroupExpr_def OrderExpr_def split: option.splits)

lemma GetMetrics_groupExpr_unlisted:
  "g \<notin> set group_by_allowlist \<Longrightarrow> GetMetrics_groupExpr (Some g) = []"
  using bucket_expr_allowlist [of g] by (simp add: GetMetrics_groupExpr_table)

lemma inlined_text_ungrouped:
  "GetMetrics_groupExpr (GroupBy request) = [] \<Longrightarrow>
   set (inlined_text (GetMetrics_query request)) \<subseteq> set ungrouped_templates"
  by (auto simp: GetMetrics_query_ungrouped inlined_text_def safe_text_def
        ungrouped_templates_def split: option.splits if_splits)

lemma GetMetrics_query_where:
  "q_where (GetMetrics_query request) =
     (case metric_EventName request of
        None \<Rightarrow> []
      | Some name \<Rightarrow> if name \<noteq> [] then [(''event_name = ?'', [ArgString name])] else [])
     @ (case From request of
          None \<Rightarrow> []
        | Some from \<Rightarrow> [(''timestamp >= ?'', [ArgTime (Unix from)])])
     @ (case To request of
          None \<Rightarrow> []
        | Some to \<Rightarrow> [(''timestamp <= ?'', [ArgTime (Unix to)])])"
proof (cases "GetMetrics_groupExpr (GroupBy request) = []")
  case True
  then show ?thesis by (simp add: GetMetrics_query_ungrouped)
next
  case False
  then show ?thesis by (simp add: GetMetrics_query_grouped [OF refl])
qed

text \<open>The conditions of the built query select the rows the request asks for.\<close>

lemma where_condition_event_name:
  "where_condition (''event_name = ?'', [ArgString name]) = Some (\<lambda>r. row_EventName r = name)"
  by (simp add: where_condition_def)

lemma where_condition_from:
  "where_condition (''timestamp >= ?'', [ArgTime (Unix from)])
     = Some (\<lambda>r. sint from \<le> seconds (row_Timestamp r))"
  by (simp add: where_condition_def seconds_def)

lemma where_condition_to:
  "where_condition (''timestamp <= ?'', [ArgTime (Unix to)])
     = Some (\<lambda>r. seconds (row_Timestamp r) \<le> sint to)"
  by (simp add: where_condition_def seconds_def)

lemma request_conditions:
  "\<exists>conditions.
     those (map where_condition (q_where (GetMetrics_query request))) = Some conditions
     \<and> (\<forall>r. list_all (\<lambda>c. c r) conditions \<longleftrightarrow> request_selects request r)"
  by (cases "metric_EventName request"; cases "From request"; cases "To request")
     (auto simp: GetMetrics_query_where where_condition_event_name where_condition_from
        where_condition_to request_selects_def)

lemma clickhouse_select_ungrouped:
  assumes "GetMetrics_groupExpr (GroupBy request) = []"
  shows "clickhouse_select srv (GetMetrics_query request)
           = Inr [aggregate ''total''
                    (filter (request_selects request) (FINAL (table_events srv)))]"
proof -
  obtain conditions where
    conds: "those (map where_condition (q_where (GetMetrics_query request))) = Some conditions"
    and sel: "\<And>r. list_all (\<lambda>c. c r) conditions \<longleftrightarrow> request_selects request r"
    using request_conditions [of request] by blast
  have shape: "q_table (GetMetrics_query request) = [(''events FINAL'', [])]"
    "q_column (GetMetrics_query request)
       = [(CHR 0x27 # ''total'' @ CHR 0x27 # '' AS bucket'', []),
          (''count() AS total_events'', []), (''uniqExact(user_id) AS unique_users'', [])]"
    "q_group (GetMetrics_query request) = []" "q_order (GetMetrics_query request) = []"
    by (simp_all add: GetMetrics_query_ungrouped [OF assms] total_bucket_def)
  show ?thesis
    unfolding clickhouse_select_def conds shape
    by (simp add: sel)
qed

lemma GetMetrics_scans_query:
  "GetMetrics (Some db) request = Some (Scan db (GetMetrics_query request))"
  by (cases "Scan db (GetMetrics_query request)") (simp_all add: GetMetrics_def)

lemma request_selects_GroupBy:
  "request_selects (request\<lparr>GroupBy := gb\<rparr>) = request_selects request"
  by (rule ext) (simp add: request_selects_def)

text \<open>The metric scenario: of the five rows, \<open>FINAL\<close> leaves four, three of them purchases.\<close>

lemma FINAL_scenario_store:
  "FINAL (table_events scenario_store)
     = [purchase_row ''user_1'' ''web'' 1700000002,
        purchase_row ''user_2'' ''web'' 1700000001,
        purchase_row ''user_3'' ''mobile'' 1700000001,
        (purchase_row ''user_1'' ''web'' 1700000001)\<lparr>row_EventName := ''view''\<rparr>]"
  by (simp add: FINAL_def scenario_store_def merge_row_def same_sorting_key_def
        purchase_row_def seconds_def)

lemma scenario_purchases:
  "filter (request_selects
             \<lparr>metric_EventName = Some ''purchase'', From = None, To = None, GroupBy = gb\<rparr>)
          (FINAL (table_events scenario_store))
     = [purchase_row ''user_1'' ''web'' 1700000002,
        purchase_row ''user_2'' ''web'' 1700000001,
        purchase_row ''user_3'' ''mobile'' 1700000001]"
  by (simp add: FINAL_scenario_store request_selects_def purchase_row_def)

text \<open>
  C3. For a \<open>group_by\<close> value outside the allowlist, \<open>GetMetrics\<close> builds the query it
  builds without \<open>group_by\<close>, and returns what scanning that query returns, which is
  what it returns without \<open>group_by\<close>. From the store this is a single bucket labeled
  \<open>total\<close>, with the count of the de-duplicated rows the request selects and the number
  of their distinct users. The bucket column of the query is the constant \<open>'total'\<close>,
  there is no GROUP BY and no ORDER BY clause, and the text of the query consists of
  fixed templates only (the request's values are bound as parameters).
\<close>

theorem GetMetrics_unlisted_group_by:
  "g \<notin> set group_by_allowlist \<Longrightarrow>
     GetMetrics_query (request\<lparr>GroupBy := Some g\<rparr>) = GetMetrics_query (request\<lparr>GroupBy := None\<rparr>)
   \<and> GetMetrics c (request\<lparr>GroupBy := Some g\<rparr>) = GetMetrics c (request\<lparr>GroupBy := None\<rparr>)
   \<and> GetMetrics (Some db) (request\<lparr>GroupBy := Some g\<rparr>)
       = Some (Scan db (GetMetrics_query (request\<lparr>GroupBy := None\<rparr>)))
   \<and> GetMetrics (Some (clickhouse_DB srv)) (request\<lparr>GroupBy := Some g\<rparr>)
       = Some (Inr [\<lparr>Bucket = ''total'',
                     TotalEvents =
                       of_nat (length (filter (request_selects request)
                                         (FINAL (table_events srv)))),
                     UniqueUsers =
                       of_nat (length (remdups (map row_UserID
                                 (filter (request_selects request)
                                    (FINAL (table_events srv))))))\<rparr>])
   \<and> q_column (GetMetrics_query (request\<lparr>GroupBy := Some g\<rparr>))
       = [(total_bucket, []), (''count() AS total_events'', []),
          (''uniqExact(user_id) AS unique_users'', [])]
   \<and> q_group (GetMetrics_query (request\<lparr>GroupBy := Some g\<rparr>)) = []
   \<and> q_order (GetMetrics_query (request\<lparr>GroupBy := Some g\<rparr>)) = []
   \<and> set (inlined_text (GetMetrics_query (request\<lparr>GroupBy := Some g\<rparr>)))
       \<subseteq> set ungrouped_templates"
proof -
  assume unlisted: "g \<notin> set group_by_allowlist"
  have some: "GetMetrics_groupExpr (GroupBy (request\<lparr>GroupBy := Some g\<rparr>)) = []"
    using unlisted by (simp add: GetMetrics_groupExpr_unlisted)
  have none: "GetMetrics_groupExpr (GroupBy (request\<lparr>GroupBy := None\<rparr>)) = []"
    by (simp add: GetMetrics_groupExpr_def)
  have same: "GetMetrics_query (request\<lparr>GroupBy := Some g\<rparr>)
                = GetMetrics_query (request\<lparr>GroupBy := None\<rparr>)"
    by (simp add: GetMetrics_query_ungrouped [OF some] GetMetrics_query_ungrouped [OF none])
  have results: "GetMetrics c (request\<lparr>GroupBy := Some g\<rparr>)
                   = GetMetrics c (request\<lparr>GroupBy := None\<rparr>)"
    unfolding GetMetrics_def same by (rule refl)
  have scanned: "GetMetrics (Some db) (request\<lparr>GroupBy := Some g\<rparr>)
                   = Some (Scan db (GetMetrics_query (request\<lparr>GroupBy := None\<rparr>)))"
    by (simp add: GetMetrics_scans_query same)
  have total: "GetMetrics (Some (clickhouse_DB srv)) (request\<lparr>GroupBy := Some g\<rparr>)
       = Some (Inr [\<lparr>Bucket = ''total'',
                     TotalEvents =
                       of_nat (length (filter (request_selects request)
                                         (FINAL (table_events srv)))),
                     UniqueUsers =
                       of_nat (length (remdups (map row_UserID
                                 (filter (request_selects request)
                                    (FINAL (table_events srv))))))\<rparr>])"
    by (simp add: GetMetrics_scans_query clickhouse_DB_def
          clickhouse_select_ungrouped [OF some] request_selects_GroupBy aggregate_def)
  have shape: "q_column (GetMetrics_query (request\<lparr>GroupBy := Some g\<rparr>))
       = [(total_bucket, []), (''count() AS total_events'', []),
          (''uniqExact(user_id) AS unique_users'', [])]
     \<and> q_group (GetMetrics_query (request\<lparr>GroupBy := Some g\<rparr>)) = []
     \<and> q_order (GetMetrics_query (request\<lparr>GroupBy := Some g\<rparr>)) = []"
    by (simp add: GetMetrics_query_ungrouped [OF some])
  show ?thesis
    using same results scanned total shape inlined_text_ungrouped [OF some] by blast
qed

theorem GetMetrics_unlisted_group_by_witness:
  "'';DROP TABLE events'' \<notin> set group_by_allowlist
   \<and> GetMetrics_query
        \<lparr>metric_EventName = Some ''purchase'', From = None, To = None,
         GroupBy = Some '';DROP TABLE events''\<rparr>
     = \<lparr>q_table = [(''events FINAL'', [])],
        q_column = [(total_bucket, []), (''count() AS total_events'', []),
                    (''uniqExact(user_id) AS unique_users'', [])],
        q_where = [(''event_name = ?'', [ArgString ''purchase''])],
        q_group = [], q_order = []\<rparr>
   \<and> GetMetrics (Some (clickhouse_DB scenario_store))
        \<lparr>metric_EventName = Some ''purchase'', From = None, To = None,
         GroupBy = Some '';DROP TABLE events''\<rparr>
     = Some (Inr [\<lparr>Bucket = ''total'', TotalEvents = 3, UniqueUsers = 3\<rparr>])
   \<and> GetMetrics (Some (clickhouse_DB scenario_store))
        \<lparr>metric_EventName = Some ''purchase'', From = None, To = None, GroupBy = None\<rparr>
     = Some (Inr [\<lparr>Bucket = ''total'', TotalEvents = 3, UniqueUsers = 3\<rparr>])"
proof -
  let ?request = "\<lparr>metric_EventName = Some ''purchase'', From = None, To = None,
                   GroupBy = None\<rparr>"
  have unlisted: "'';DROP TABLE events'' \<notin> set group_by_allowlist"
    by (simp add: group_by_allowlist_def)
  note hostile = GetMetrics_unlisted_group_by
      [OF unlisted, of ?request "Some (clickhouse_DB scenario_store)" "clickhouse_DB scenario_store"
         scenario_store]
  have absent: "GetMetrics_query ?request
     = \<lparr>q_table = [(''events FINAL'', [])],
        q_column = [(total_bucket, []), (''count() AS total_events'', []),
                    (''uniqExact(user_id) AS unique_users'', [])],
        q_where = [(''event_name = ?'', [ArgString ''purchase''])],
        q_group = [], q_order = []\<rparr>"
    by (simp add: GetMetrics_query_ungrouped GetMetrics_groupExpr_def)
  have restored: "?request\<lparr>GroupBy := None\<rparr> = ?request"
    by simp
  have query: "GetMetrics_query (?request\<lparr>GroupBy := Some '';DROP TABLE events''\<rparr>)
                 = GetMetrics_query (?request\<lparr>GroupBy := None\<rparr>)"
    using hostile by blast
  have result: "GetMetrics (Some (clickhouse_DB scenario_store))
                  (?request\<lparr>GroupBy := Some '';DROP TABLE events''\<rparr>)
     = Some (Inr [\<lparr>Bucket = ''total'', TotalEvents = 3, UniqueUsers = 3\<rparr>])"
  proof -
    have "GetMetrics (Some (clickhouse_DB scenario_store))
            (?request\<lparr>GroupBy := Some '';DROP TABLE events''\<rparr>)
       = Some (Inr [\<lparr>Bucket = ''total'',
                     TotalEvents =
                       of_nat (length (filter (request_selects ?request)
                                         (FINAL (table_events scenario_store)))),
                     UniqueUsers =
                       of_nat (length (remdups (map row_UserID
                                 (filter (request_selects ?request)
                                    (FINAL (table_events scenario_store))))))\<rparr>])"
      using hostile by blast
    then show ?thesis
      by (simp add: scenario_purchases purchase_row_def)
  qed
  have same: "GetMetrics (Some (clickhouse_DB scenario_store))
                (?request\<lparr>GroupBy := Some '';DROP TABLE events''\<rparr>)
              = GetMetrics (Some (clickhouse_DB scenario_store))
                  (?request\<lparr>GroupBy := None\<rparr>)"
    using hostile by blast
  have absent_result: "GetMetrics (Some (clickhouse_DB scenario_store)) ?request
     = Some (Inr [\<lparr>Bucket = ''total'', TotalEvents = 3, UniqueUsers = 3\<rparr>])"
    using same result unfolding restored by simp
  have hostile_query: "GetMetrics_query (?request\<lparr>GroupBy := Some '';DROP TABLE events''\<rparr>)
     = \<lparr>q_table = [(''events FINAL'', [])],
        q_column = [(total_bucket, []), (''count() AS total_events'', []),
                    (''uniqExact(user_id) AS unique_users'', [])],
        q_where = [(''event_name = ?'', [ArgString ''purchase''])],
        q_group = [], q_order = []\<rparr>"
    using query absent unfolding restored by simp
  show ?thesis
    using unlisted hostile_query result absent_result by simp
qed

text \<open>
  The planner's query for every request: the \<open>event_name\<close> filter is guarded by a test
  for the empty string.
\<close>

lemma GetMetrics_query_shape:
  "GetMetrics_query request =
     \<lparr>q_table = [(''events FINAL'', [])],
      q_column =
        [(case Option.bind (GroupBy request) bucket_expr of
            None \<Rightarrow> (total_bucket, [])
          | Some ex \<Rightarrow> (''? AS bucket'', [Safe ex])),
         (''count() AS total_events'', []),
         (''uniqExact(user_id) AS unique_users'', [])],
      q_where =
        (case metric_EventName request of
           None \<Rightarrow> []
         | Some name \<Rightarrow> if name \<noteq> [] then [(''event_name = ?'', [ArgString name])] else [])
        @ (case From request of
             None \<Rightarrow> []
           | Some from \<Rightarrow> [(''timestamp >= ?'', [ArgTime (Unix from)])])
        @ (case To request of
             None \<Rightarrow> []
           | Some to \<Rightarrow> [(''timestamp <= ?'', [ArgTime (Unix to)])]),
      q_group =
        (case Option.bind (GroupBy request) bucket_expr of
           None \<Rightarrow> []
         | Some ex \<Rightarrow> [(ex, [])]),
      q_order =
        (case Option.bind (GroupBy request) bucket_expr of
           None \<Rightarrow> []
         | Some ex \<Rightarrow> [(''bucket ASC'', [])])\<rparr>"
proof (cases "Option.bind (GroupBy request) bucket_expr")
  case None
  show ?thesis
    unfolding GetMetrics_query_ungrouped [OF GetMetrics_groupExpr_None [OF None]]
    by (simp add: None)
next
  case (Some ex)
  have ex: "GetMetrics_groupExpr (GroupBy request) = ex" "ex \<noteq> []"
    using GetMetrics_groupExpr_Some [OF Some] by simp_all
  show ?thesis
    unfolding GetMetrics_query_grouped [OF ex]
    by (simp add: Some)
qed

text \<open>
  A metric request that passed \<open>ValidateMetricRequest\<close> has no empty \<open>event_name\<close>. (The
  handler leaves \<open>event_name\<close> absent when the query parameter is empty.)
\<close>

lemma ValidateMetricRequest_event_name:
  "ValidateMetricRequest now_from now_to request = None \<Longrightarrow>
   metric_EventName request \<noteq> Some []"
  by (auto simp: ValidateMetricRequest_def TrimSpace_Nil split: if_splits)

lemma grouping_iff:
  "Option.bind (GroupBy request) bucket_expr \<noteq> None
     \<longleftrightarrow> (\<exists>g \<in> set group_by_allowlist. GroupBy request = Some g)"
  using bucket_expr_allowlist
  by (cases "GroupBy request") auto

text \<open>
  C4. For every metric request whose \<open>event_name\<close>, if present, is not empty (as the
  data model has it, and as the handler and the validation ensure), the planner selects
  from \<open>events FINAL\<close> the bucket, \<open>count() AS total_events\<close> and
  \<open>uniqExact(user_id) AS unique_users\<close>. The filters \<open>event_name = ?\<close>,
  \<open>timestamp >= ?\<close> and \<open>timestamp <= ?\<close> are each included exactly when
  \<open>event_name\<close>, \<open>from\<close> and \<open>to\<close> is present, with its value bound as a parameter.
  The bucket is the allowlisted expression, with GROUP BY on it and ORDER BY
  \<open>bucket ASC\<close>, exactly when \<open>group_by\<close> is present and in the allowlist table (a time
  value maps to the truncation rendered as a string, a column value to the column);
  otherwise the bucket is the constant \<open>'total'\<close> and both clauses are absent.
\<close>

theorem GetMetrics_query_plan:
  "metric_EventName request \<noteq> Some [] \<Longrightarrow>
   GetMetrics_query request =
     \<lparr>q_table = [(''events FINAL'', [])],
      q_column =
        [(case Option.bind (GroupBy request) bucket_expr of
            None \<Rightarrow> (total_bucket, [])
          | Some ex \<Rightarrow> (''? AS bucket'', [Safe ex])),
         (''count() AS total_events'', []),
         (''uniqExact(user_id) AS unique_users'', [])],
      q_where =
        (case metric_EventName request of
           None \<Rightarrow> []
         | Some name \<Rightarrow> [(''event_name = ?'', [ArgString name])])
        @ (case From request of
             None \<Rightarrow> []
           | Some from \<Rightarrow> [(''timestamp >= ?'', [ArgTime (Unix from)])])
        @ (case To request of
             None \<Rightarrow> []
           | Some to \<Rightarrow> [(''timestamp <= ?'', [ArgTime (Unix to)])]),
      q_group =
        (case Option.bind (GroupBy request) bucket_expr of
           None \<Rightarrow> []
         | Some ex \<Rightarrow> [(ex, [])]),
      q_order =
        (case Option.bind (GroupBy request) bucket_expr of
           None \<Rightarrow> []
         | Some ex \<Rightarrow> [(''bucket ASC'', [])])\<rparr>
   \<and> (list_ex (\<lambda>w. fst w = ''event_name = ?'') (q_where (GetMetrics_query request))
        \<longleftrightarrow> metric_EventName request \<noteq> None)
   \<and> (list_ex (\<lambda>w. fst w = ''timestamp >= ?'') (q_where (GetMetrics_query request))
        \<longleftrightarrow> From request \<noteq> None)
   \<and> (list_ex (\<lambda>w. fst w = ''timestamp <= ?'') (q_where (GetMetrics_query request))
        \<longleftrightarrow> To request \<noteq> None)
   \<and> (q_group (GetMetrics_query request) \<noteq> []
        \<longleftrightarrow> (\<exists>g \<in> set group_by_allowlist. GroupBy request = Some g))
   \<and> (q_order (GetMetrics_query request) \<noteq> []
        \<longleftrightarrow> (\<exists>g \<in> set group_by_allowlist. GroupBy request = Some g))"
proof -
  assume named: "metric_EventName request \<noteq> Some []"
  have name: "(case metric_EventName request of
                 None \<Rightarrow> []
               | Some name \<Rightarrow>
                   if name \<noteq> [] then [(''event_name = ?'', [ArgString name])] else [])
              = (case metric_EventName request of
                   None \<Rightarrow> []
                 | Some name \<Rightarrow> [(''event_name = ?'', [ArgString name])])"
    using named by (cases "metric_EventName request") auto
  have plan: "GetMetrics_query request =
     \<lparr>q_table = [(''events FINAL'', [])],
      q_column =
        [(case Option.bind (GroupBy request) bucket_expr of
            None \<Rightarrow> (total_bucket, [])
          | Some ex \<Rightarrow> (''? AS bucket'', [Safe ex])),
         (''count() AS total_events'', []),
         (''uniqExact(user_id) AS unique_users'', [])],
      q_where =
        (case metric_EventName request of
           None \<Rightarrow> []
         | Some name \<Rightarrow> [(''event_name = ?'', [ArgString name])])
        @ (case From request of
             None \<Rightarrow> []
           | Some from \<Rightarrow> [(''timestamp >= ?'', [ArgTime (Unix from)])])
        @ (case To request of
             None \<Rightarrow> []
           | Some to \<Rightarrow> [(''timestamp <= ?'', [ArgTime (Unix to)])]),
      q_group =
        (case Option.bind (GroupBy request) bucket_expr of
           None \<Rightarrow> []
         | Some ex \<Rightarrow> [(ex, [])]),
      q_order =
        (case Option.bind (GroupBy request) bucket_expr of
           None \<Rightarrow> []
         | Some ex \<Rightarrow> [(''bucket ASC'', [])])\<rparr>"
    using GetMetrics_query_shape [of request] unfolding name .
  have filters: "(list_ex (\<lambda>w. fst w = ''event_name = ?'') (q_where (GetMetrics_query request))
        \<longleftrightarrow> metric_EventName request \<noteq> None)
   \<and> (list_ex (\<lambda>w. fst w = ''timestamp >= ?'') (q_where (GetMetrics_query request))
        \<longleftrightarrow> From request \<noteq> None)
   \<and> (list_ex (\<lambda>w. fst w = ''timestamp <= ?'') (q_where (GetMetrics_query request))
        \<longleftrightarrow> To request \<noteq> None)"
    using named
    by (cases "metric_EventName request"; cases "From request"; cases "To request")
       (simp_all add: GetMetrics_query_where)
  have grouping: "(q_group (GetMetrics_query request) \<noteq> []
        \<longleftrightarrow> (\<exists>g \<in> set group_by_allowlist. GroupBy request = Some g))
   \<and> (q_order (GetMetrics_query request) \<noteq> []
        \<longleftrightarrow> (\<exists>g \<in> set group_by_allowlist. GroupBy request = Some g))"
    unfolding grouping_iff [symmetric]
    by (cases "Option.bind (GroupBy request) bucket_expr")
       (simp_all add: GetMetrics_query_shape [of request])
  show ?thesis
    using plan filters grouping by blast
qed

theorem GetMetrics_query_plan_witness:
  "metric_EventName
     \<lparr>metric_EventName = Some ''purchase'', From = Some 1700000000, To = None,
      GroupBy = Some ''channel''\<rparr> \<noteq> Some []
   \<and> GetMetrics_query
     \<lparr>metric_EventName = Some ''purchase'', From = Some 1700000000, To = None,
      GroupBy = Some ''channel''\<rparr>
   = \<lparr>q_table = [(''events FINAL'', [])],
      q_column = [(''? AS bucket'', [Safe ''channel'']), (''count() AS total_events'', []),
                  (''uniqExact(user_id) AS unique_users'', [])],
      q_where = [(''event_name = ?'', [ArgString ''purchase'']),
                 (''timestamp >= ?'', [ArgTime (Unix 1700000000)])],
      q_group = [(''channel'', [])],
      q_order = [(''bucket ASC'', [])]\<rparr>"
proof -
  let ?request = "\<lparr>metric_EventName = Some ''purchase'', From = Some 1700000000, To = None,
                   GroupBy = Some ''channel''\<rparr>"
  have named: "metric_EventName ?request \<noteq> Some []"
    by simp
  have expr: "Option.bind (GroupBy ?request) bucket_expr = Some ''channel''"
    by (simp add: bucket_expr_def)
  have "GetMetrics_query ?request
   = \<lparr>q_table = [(''events FINAL'', [])],
      q_column = [(''? AS bucket'', [Safe ''channel'']), (''count() AS total_events'', []),
                  (''uniqExact(user_id) AS unique_users'', [])],
      q_where = [(''event_name = ?'', [ArgString ''purchase'']),
                 (''timestamp >= ?'', [ArgTime (Unix 1700000000)])],
      q_group = [(''channel'', [])],
      q_order = [(''bucket ASC'', [])]\<rparr>"
    using GetMetrics_query_plan [OF named] unfolding expr by simp
  then show ?thesis using named by simp
qed

section \<open>The batcher never writes an empty batch\<close>

lemma extract_columns_error:
  "extract_columns rt now requests cols = Inl err \<Longrightarrow>
   \<exists>cause. err = Errorf ''failed to serialize metadata: '' cause"
  by (induction requests arbitrary: cols) (auto split: option.splits sum.splits if_splits)

lemma SaveEvents_nonempty:
  "requests \<noteq> [] \<Longrightarrow> SaveEvents rt c requests \<noteq> Some (ErrorString ''no events to insert'')"
  by (auto simp: SaveEvents_def split: option.splits sum.splits dest: extract_columns_error)

lemma flushBatch_empty_batch: "currentBatch b = [] \<Longrightarrow> flushBatch e (b, trace) = (b, trace)"
  by (simp add: flushBatch_def split: prod.splits)

lemma flushBatch_all_filtered:
  "filterProcessedEvents (fst (snd e)) (currentBatch b) = [] \<Longrightarrow>
   snd (flushBatch e (b, trace)) = trace"
  by (auto simp: flushBatch_def Let_def split: prod.splits option.splits)

lemma flushBatch_trace:
  "list_all nonempty_write (snd bt) \<Longrightarrow> list_all nonempty_write (snd (flushBatch e bt))"
  by (auto simp: flushBatch_def Let_def nonempty_write_def SaveEvents_nonempty
      split: prod.splits option.splits)

lemma flushRemaining_unfold:
  "flushRemaining e1 e2 bt =
     (let bt1 = (if currentBatch (fst bt) \<noteq> [] then flushBatch e1 bt else bt);
          d = drain (eventChan (fst bt1)) (currentBatch (fst bt1)) 0;
          b2 = (fst bt1)\<lparr>eventChan := fst d, currentBatch := fst (snd d)\<rparr>
      in if snd (snd d) > 0 then flushBatch e2 (b2, snd bt1) else (b2, snd bt1))"
  by (simp add: flushRemaining_def Let_def split_beta)

lemma flushRemaining_trace:
  "list_all nonempty_write (snd bt) \<Longrightarrow> list_all nonempty_write (snd (flushRemaining e1 e2 bt))"
proof -
  assume ok: "list_all nonempty_write (snd bt)"
  define bt1 where "bt1 = (if currentBatch (fst bt) \<noteq> [] then flushBatch e1 bt else bt)"
  define d where "d = drain (eventChan (fst bt1)) (currentBatch (fst bt1)) 0"
  define b2 where "b2 = (fst bt1)\<lparr>eventChan := fst d, currentBatch := fst (snd d)\<rparr>"
  have ok1: "list_all nonempty_write (snd bt1)"
    using ok flushBatch_trace [of bt e1] by (simp add: bt1_def)
  have eq: "flushRemaining e1 e2 bt
              = (if snd (snd d) > 0 then flushBatch e2 (b2, snd bt1) else (b2, snd bt1))"
    by (simp add: flushRemaining_unfold Let_def bt1_def d_def b2_def)
  show ?thesis
    using ok1 flushBatch_trace [of "(b2, snd bt1)" e2] by (simp add: eq)
qed

lemma on_receive_trace:
  "list_all nonempty_write (snd bt) \<Longrightarrow> list_all nonempty_write (snd (on_receive e event bt))"
  using flushBatch_trace
    [of "((fst bt)\<lparr>currentBatch := currentBatch (fst bt) @ [event]\<rparr>, snd bt)" e]
  by (simp add: on_receive_def Let_def)

lemma worker_turn_trace:
  "list_all nonempty_write (snd bt) \<Longrightarrow> list_all nonempty_write (snd (worker_turn sc e1 e2 bt))"
proof -
  assume ok: "list_all nonempty_write (snd bt)"
  let ?awake = "((fst bt)\<lparr>eventChan_recvq := NotWaiting\<rparr>, snd bt)"
  have awake: "list_all nonempty_write (snd ?awake)"
    using ok by simp
  have turn: "list_all nonempty_write (snd (worker_turn sc e1 e2 bt))"
    if "\<forall>event. eventChan_recvq (fst bt) \<noteq> Delivered event"
  proof (cases sc)
    case ctx_Done
    show ?thesis
      using that flushRemaining_trace [OF awake, of e1 e2]
      by (cases "eventChan_recvq (fst bt)") (simp_all add: worker_turn_def ctx_Done split_beta)
  next
    case eventChan_recv
    show ?thesis
    proof (cases "eventChan (fst bt)")
      case Nil
      with ok that show ?thesis
        by (cases "eventChan_recvq (fst bt)") (simp_all add: worker_turn_def eventChan_recv)
    next
      case (Cons event chan)
      show ?thesis
        using that Cons
          on_receive_trace
            [of "((fst bt)\<lparr>eventChan := chan, eventChan_recvq := NotWaiting\<rparr>, snd bt)" e1 event]
          ok
        by (cases "eventChan_recvq (fst bt)") (simp_all add: worker_turn_def eventChan_recv)
    qed
  next
    case ticker_C
    show ?thesis
      using that flushBatch_trace [OF awake, of e1] ok
      by (cases "eventChan_recvq (fst bt)") (simp_all add: worker_turn_def ticker_C Let_def)
  qed
  show ?thesis
  proof (cases "eventChan_recvq (fst bt)")
    case (Delivered event)
    then show ?thesis
      using on_receive_trace [OF awake, of e1 event] by (simp add: worker_turn_def)
  next
    case NotWaiting
    then show ?thesis using turn by simp
  next
    case Waiting
    then show ?thesis using turn by simp
  qed
qed

lemma run_trace:
  "list_all nonempty_write (snd bt) \<Longrightarrow> list_all nonempty_write (snd (run as bt))"
proof (induction as arbitrary: bt)
  case Nil
  then show ?case by simp
next
  case (Cons a as)
  show ?case
  proof (cases a)
    case (Producer event)
    with Cons show ?thesis by (simp split: option.splits prod.splits)
  next
    case Worker_parks
    with Cons show ?thesis by simp
  next
    case (Worker sc e1 e2)
    with Cons worker_turn_trace [of bt sc e1 e2] show ?thesis by simp
  qed
qed

lemma filterProcessedEvents_fresh:
  "filterProcessedEvents cache_empty [purchase_event] = [purchase_event]"
  by (simp add: filterProcessedEvents_def AreEventsProcessed_def MGet_def cache_empty_def
        processedMap_step_def enumerate_eq_zip filterProcessedEvents_of_def filter_loop_def)

lemma SaveEvents_purchase:
  "SaveEvents go_runtime (Some store_ok) [purchase_event] = None"
  by (simp add: SaveEvents_def go_runtime_def store_ok_def purchase_event_def)

lemma flushBatch_fresh:
  "flushBatch env_fresh (b\<lparr>currentBatch := [purchase_event]\<rparr>, trace)
     = (b\<lparr>currentBatch := []\<rparr>,
        trace @ [SaveEvents_call [purchase_event] None,
                 SetMultipleEventsProcessed_call [purchase_event]])"
  by (simp add: flushBatch_def env_fresh_def filterProcessedEvents_fresh SaveEvents_purchase
        Let_def)

lemma flushBatch_seen:
  "flushBatch env_seen (b\<lparr>currentBatch := [purchase_event]\<rparr>, trace)
     = (b\<lparr>currentBatch := []\<rparr>, trace)"
  by (simp add: flushBatch_def env_seen_def filterProcessedEvents_purchase)

lemma batcher_full_received:
  "worker_turn eventChan_recv e1 e2 (batcher_full, trace)
     = (batcher_empty\<lparr>currentBatch := [purchase_event]\<rparr>, trace)"
  by (simp add: worker_turn_def on_receive_def batcher_full_def batcher_empty_def)

lemma ticker_flushes:
  "worker_turn ticker_C e1 e2 (batcher_empty\<lparr>currentBatch := [purchase_event]\<rparr>, trace)
     = flushBatch e1 (batcher_empty\<lparr>currentBatch := [purchase_event]\<rparr>, trace)"
  by (simp add: worker_turn_def batcher_empty_def)

lemma batcher_empty_reset: "batcher_empty\<lparr>currentBatch := []\<rparr> = batcher_empty"
  by (simp add: batcher_empty_def)

lemma run_fresh:
  "run [Producer purchase_event, Worker eventChan_recv env_fresh env_fresh,
        Worker ticker_C env_fresh env_fresh] (batcher_empty, [])
     = (batcher_empty,
        [SaveEvents_call [purchase_event] None,
         SetMultipleEventsProcessed_call [purchase_event]])"
proof -
  have running: "wg batcher_full > 0" "wg (batcher_empty\<lparr>currentBatch := [purchase_event]\<rparr>) > 0"
    by (simp_all add: batcher_full_def batcher_empty_def)
  show ?thesis
    using running
    by (simp add: Enqueue_batcher_empty batcher_full_received ticker_flushes flushBatch_fresh
          batcher_empty_reset)
qed

lemma run_seen:
  "run [Producer purchase_event, Worker eventChan_recv env_seen env_seen,
        Worker ticker_C env_seen env_seen] (batcher_empty, [])
     = (batcher_empty, [])"
proof -
  have running: "wg batcher_full > 0" "wg (batcher_empty\<lparr>currentBatch := [purchase_event]\<rparr>) > 0"
    by (simp_all add: batcher_full_def batcher_empty_def)
  show ?thesis
    using running
    by (simp add: Enqueue_batcher_empty batcher_full_received ticker_flushes flushBatch_seen
          batcher_empty_reset)
qed

text \<open>
  C10. In every run of the batcher (producers enqueueing, the worker receiving, ticking
  and draining on cancel, whatever the cache and the store answer), every call of the
  columnar writer has a non-empty batch and does not return the writer's error for an
  empty input; the same holds for one drain. \<open>flushBatch\<close> returns without a writer
  call when the current batch is empty, and when the dedup filter removes every event.
\<close>

theorem batcher_never_writes_empty_batch:
  "list_all nonempty_write (snd (run as (b, [])))
   \<and> list_all nonempty_write (snd (flushRemaining e1 e2 (b, [])))
   \<and> (currentBatch b = [] \<longrightarrow> flushBatch e (b, trace) = (b, trace))
   \<and> (filterProcessedEvents (fst (snd e)) (currentBatch b) = [] \<longrightarrow>
        snd (flushBatch e (b, trace)) = trace)"
  using run_trace [of "(b, [])" as] flushRemaining_trace [of "(b, [])" e1 e2]
    flushBatch_empty_batch [of b e trace] flushBatch_all_filtered [of e b trace]
  by simp

theorem batcher_never_writes_empty_batch_witness:
  "snd (run [Producer purchase_event, Worker eventChan_recv env_fresh env_fresh,
             Worker ticker_C env_fresh env_fresh] (batcher_empty, []))
     = [SaveEvents_call [purchase_event] None,
        SetMultipleEventsProcessed_call [purchase_event]]
   \<and> list_all nonempty_write
        [SaveEvents_call [purchase_event] None,
         SetMultipleEventsProcessed_call [purchase_event]]
   \<and> flushBatch env_seen (batcher_empty, []) = (batcher_empty, [])
   \<and> snd (flushBatch env_seen (batcher_empty\<lparr>currentBatch := [purchase_event]\<rparr>, [])) = []"
proof -
  have empty: "currentBatch batcher_empty = []"
    by (simp add: batcher_empty_def)
  have filtered: "filterProcessedEvents (fst (snd env_seen))
                    (currentBatch (batcher_empty\<lparr>currentBatch := [purchase_event]\<rparr>)) = []"
    by (simp add: env_seen_def filterProcessedEvents_purchase)
  note in_run = batcher_never_writes_empty_batch
      [of "[Producer purchase_event, Worker eventChan_recv env_fresh env_fresh,
            Worker ticker_C env_fresh env_fresh]" batcher_empty env_fresh env_fresh
          env_seen "[]"]
  note in_flush = batcher_never_writes_empty_batch
      [of "[]" "batcher_empty\<lparr>currentBatch := [purchase_event]\<rparr>" env_fresh env_fresh
          env_seen "[]"]
  have writes: "list_all nonempty_write
      (snd (run [Producer purchase_event, Worker eventChan_recv env_fresh env_fresh,
                 Worker ticker_C env_fresh env_fresh] (batcher_empty, [])))"
    using in_run by blast
  have no_batch: "flushBatch env_seen (batcher_empty, []) = (batcher_empty, [])"
    using in_run empty by blast
  have all_seen: "snd (flushBatch env_seen
                         (batcher_empty\<lparr>currentBatch := [purchase_event]\<rparr>, [])) = []"
    using in_flush filtered by blast
  show ?thesis
    using writes no_batch all_seen unfolding run_fresh by simp
qed

end
